theory Spec2Isabelle
  imports Complex_Main "HOL-Library.Sublist" "HOL-Library.Char_ord"
begin

section \<open>JavaScript values\<close>

text \<open>
  A property of a store document or of a request body may be absent, hold \<open>null\<close>, or
  hold a value of the expected type. The source guards its reads with \<open>x || d\<close>, which
  takes \<open>d\<close> when \<open>x\<close> is falsy: \<open>undefined\<close>, \<open>null\<close> and the empty string are falsy,
  every array (the empty one too) is truthy.
\<close>

datatype 'a field = Undefined | Null | Value 'a

definition str_or :: "string field \<Rightarrow> string \<Rightarrow> string" where
  "str_or x d = (case x of Value s \<Rightarrow> (if s = [] then d else s) | _ \<Rightarrow> d)"

definition arr_or :: "'a list field \<Rightarrow> 'a list \<Rightarrow> 'a list" where
  "arr_or x d = (case x of Value xs \<Rightarrow> xs | _ \<Rightarrow> d)"

text \<open>
  \<open>String.prototype.toLowerCase\<close> on the ASCII letters; every other character is kept.
  No proof below unfolds it.
\<close>

definition toLowerCase_char :: "char \<Rightarrow> char" where
  "toLowerCase_char c =
     (if CHR ''A'' \<le> c \<and> c \<le> CHR ''Z'' then char_of (of_char c + (32::nat)) else c)"

definition toLowerCase :: "string \<Rightarrow> string" where
  "toLowerCase s = map toLowerCase_char s"

text \<open>\<open>Array.prototype.join\<close> on an array of strings.\<close>

fun join :: "string \<Rightarrow> string list \<Rightarrow> string" where
  "join sep [] = []"
| "join sep [x] = x"
| "join sep (x # y # ys) = x @ sep @ join sep (y # ys)"

text \<open>
  JSON values, as \<open>express.json()\<close> hands them to the handler. Numbers are rationals: the
  code copies and compares them and never computes with them.
\<close>

datatype json =
    JNull
  | JBool bool
  | JNum rat
  | JStr string
  | JArr "json list"
  | JObj "(string \<times> json) list"

text \<open>
  What the code throws: an \<open>Error\<close> raised by the store or by the LLM client (its name
  and message), or the \<open>TypeError\<close> of calling \<open>toLowerCase\<close> on a favorite that is
  not a string.
\<close>

datatype error = Error string string | TypeError json

section \<open>The structured-output request\<close>

text \<open>
  The \<open>json_schema\<close> objects of both files use the keywords \<open>type\<close>,
  \<open>properties\<close>, \<open>required\<close>, \<open>additionalProperties\<close>, \<open>items\<close>,
  \<open>minItems\<close>, \<open>maxItems\<close> and \<open>enum\<close>. A schema is the tree of these keywords.
\<close>

datatype schema =
    SString
  | SNumber
  | SInteger (enum: "int list option")
  | SArray (items: schema) (minItems: "nat option") (maxItems: "nat option")
  | SObject (properties: "(string \<times> schema) list") (required: "string list")
      (additionalProperties: bool)

record format =
  fmt_type :: string
  fmt_name :: string
  strict :: bool
  schema :: schema

record llm_request =
  model :: string
  input :: string
  text_format :: format

text \<open>
  The meaning of the keywords (JSON Schema): which values a schema admits. An object
  carries every required key; each of its entries is admitted by the schema its key has
  under \<open>properties\<close>, and a key without one is admitted only if
  \<open>additionalProperties\<close> is not \<open>false\<close>.
\<close>

fun conforms :: "schema \<Rightarrow> json \<Rightarrow> bool" where
  "conforms SString v = (case v of JStr _ \<Rightarrow> True | _ \<Rightarrow> False)"
| "conforms SNumber v = (case v of JNum _ \<Rightarrow> True | _ \<Rightarrow> False)"
| "conforms (SInteger en) v =
     (case v of
        JNum q \<Rightarrow> q = of_int \<lfloor>q\<rfloor> \<and> (case en of None \<Rightarrow> True | Some is \<Rightarrow> \<lfloor>q\<rfloor> \<in> set is)
      | _ \<Rightarrow> False)"
| "conforms (SArray it lo hi) v =
     (case v of
        JArr vs \<Rightarrow>
          (case lo of None \<Rightarrow> True | Some n \<Rightarrow> n \<le> length vs) \<and>
          (case hi of None \<Rightarrow> True | Some n \<Rightarrow> length vs \<le> n) \<and>
          list_all (conforms it) vs
      | _ \<Rightarrow> False)"
| "conforms (SObject props req addl) v =
     (case v of
        JObj kvs \<Rightarrow>
          list_all (\<lambda>k. k \<in> fst ` set kvs) req \<and>
          list_all (\<lambda>(k, x). case map_of props k of None \<Rightarrow> addl | Some s \<Rightarrow> conforms s x) kvs
      | _ \<Rightarrow> False)"

section \<open>The index-based pipeline (functions/index.js)\<close>

subsection \<open>Games and the candidate cache\<close>

text \<open>
  A store document: \<open>doc.data()\<close>. The code reads \<open>name\<close>, \<open>genres\<close> (objects with
  a \<open>name\<close>), \<open>rating\<close> and, in the other file, \<open>id\<close> and \<open>slug\<close>.
\<close>

record genre =
  genre_name :: "string field"

record game =
  game_id :: "rat field"
  name :: "string field"
  genres :: "genre list field"
  rating :: "rat field"
  slug :: "string field"

text \<open>
  The module state \<open>cachedGames\<close> (\<open>null\<close> or an array) and \<open>cachedAt\<close>, with a log of
  the calls made to the two remote services: the number of reads of the collection
  \<open>rawgTopGames\<close>, and the requests sent to \<open>client.responses.create\<close>.
\<close>

record 'g world =
  cachedGames :: "'g list option"
  cachedAt :: int
  storeFetches :: nat
  llmCalls :: "llm_request list"

definition CACHE_TTL_MS :: int where
  "CACHE_TTL_MS = 10 * 60 * 1000"

text \<open>
  \<open>loadCandidateGames(force)\<close>, lines 47-60. \<open>now\<close> is what \<open>Date.now()\<close> returns and
  \<open>store\<close> is how the read of the collection ends if it is made: the documents, or the
  error it throws. The \<open>await\<close> throws before either assignment.
\<close>

definition loadCandidateGames ::
  "bool \<Rightarrow> int \<Rightarrow> error + game list \<Rightarrow> game world \<Rightarrow> (error + game list) \<times> game world" where
  "loadCandidateGames force now store w =
     (if \<not> force \<and> cachedGames w \<noteq> None \<and> now - cachedAt w < CACHE_TTL_MS
      then (Inr (the (cachedGames w)), w)
      else
        (let w1 = w\<lparr>storeFetches := storeFetches w + 1\<rparr> in
         case store of
           Inl err \<Rightarrow> (Inl err, w1)
         | Inr docs \<Rightarrow> (Inr docs, w1\<lparr>cachedGames := Some docs, cachedAt := now\<rparr>)))"

subsection \<open>Genre filter and pool selection\<close>

text \<open>
  \<open>filterByGenre(candidates, favorites)\<close>, lines 63-84. \<open>favGenres\<close> is a \<open>Set\<close> of
  the values \<open>gen.name\<close>; \<open>includes\<close> and \<open>has\<close> are membership, \<open>some\<close> is
  \<open>list_ex\<close>, \<open>flatMap\<close> is \<open>concat\<close> of \<open>map\<close>.
\<close>

definition filterByGenre :: "game list \<Rightarrow> string list \<Rightarrow> game list" where
  "filterByGenre candidates favorites =
     (let favLower = map toLowerCase favorites;
          favGames = filter (\<lambda>g. toLowerCase (str_or (name g) []) \<in> set favLower) candidates;
          favGenres = set (concat (map (\<lambda>g. map genre_name (arr_or (genres g) [])) favGames))
      in if card favGenres = 0 then candidates
         else
           (let filtered =
                  filter (\<lambda>g. list_ex (\<lambda>gen. genre_name gen \<in> favGenres) (arr_or (genres g) []))
                    candidates
            in if length filtered \<noteq> 0 then filtered else candidates))"

text \<open>Lines 148-154 of the handler: the games of the genre-filtered list that are no favorite.\<close>

definition excludeFavorites :: "game list \<Rightarrow> string list \<Rightarrow> game list" where
  "excludeFavorites genreFiltered favorites =
     (let favoritesLower = map toLowerCase favorites
      in filter (\<lambda>g. toLowerCase (str_or (name g) []) \<notin> set favoritesLower) genreFiltered)"

text \<open>
  Lines 145-164 of the handler: the value of the variable \<open>pool\<close> when the prompt is
  built (the spec's \<open>selectPool\<close>).
\<close>

definition selectPool :: "game list \<Rightarrow> string list \<Rightarrow> game list" where
  "selectPool candidates favorites =
     (let genreFiltered = filterByGenre candidates favorites;
          pool0 = excludeFavorites genreFiltered favorites;
          pool1 = (if length pool0 < 8 then genreFiltered else pool0);
          pool2 = (if length pool1 < 8 then candidates else pool1)
      in pool2)"

subsection \<open>Prompt and schema\<close>

record simplified_game =
  s_index :: int
  s_name :: "string field"
  s_genres :: "genre list field"
  s_rating :: "rat field"

text \<open>Lines 167-174.\<close>

definition simplified :: "game list \<Rightarrow> simplified_game list" where
  "simplified pool =
     map (\<lambda>(idx, g). \<lparr>s_index = int idx, s_name = name g, s_genres = genres g, s_rating = rating g\<rparr>)
       (enumerate 0 pool)"

definition validIndexes :: "simplified_game list \<Rightarrow> int list" where
  "validIndexes simp = map s_index simp"

text \<open>
  The template literal of lines 176-199, cut at its two interpolations. The serialiser
  \<open>JSON.stringify(simplified, null, 2)\<close> is a parameter.
\<close>

definition prompt_head :: string where
  \<open>prompt_head = ''\<newline>User favorites: ''\<close>

definition prompt_rules :: string where
  \<open>prompt_rules =
     ''.\<newline>'' @
     ''\<newline>'' @
     ''You are a game recommendation engine.\<newline>'' @
     ''You MUST ONLY recommend from the following candidate games array.\<newline>'' @
     ''Each game has a numeric "index". Use this "index" to reference games.\<newline>'' @
     ''DO NOT invent new games or indices that are not in the list.\<newline>'' @
     ''\<newline>'' @
     ''Candidate games (JSON array):\<newline>''\<close>

definition prompt_task :: string where
  \<open>prompt_task =
     ''\<newline>'' @
     ''\<newline>'' @
     ''From ONLY these candidate games:\<newline>'' @
     ''\<newline>'' @
     ''1. Select **8 games** the user is most likely to enjoy.\<newline>'' @
     ''2. Provide a **summary** explaining WHY (overall reasoning).\<newline>'' @
     ''\<newline>'' @
     ''Return ONLY JSON like:\<newline>'' @
     ''{\<newline>'' @
     ''  "summary": string,\<newline>'' @
     ''  "recommendations": [\<newline>'' @
     ''    { "index": number, "reason": string }\<newline>'' @
     ''  ]\<newline>'' @
     ''}\<newline>''\<close>

definition prompt :: "(simplified_game list \<Rightarrow> string) \<Rightarrow> string list \<Rightarrow> simplified_game list \<Rightarrow> string" where
  "prompt JSON_stringify favorites simp =
     prompt_head @ join '', '' favorites @ prompt_rules @ JSON_stringify simp @ prompt_task"

text \<open>The argument of \<open>client.responses.create\<close>, lines 201-238.\<close>

definition responses_request :: "string \<Rightarrow> int list \<Rightarrow> llm_request" where
  "responses_request text indexes =
     \<lparr>model = ''gpt-4.1-mini'',
      input = text,
      text_format =
        \<lparr>fmt_type = ''json_schema'',
         fmt_name = ''game_recommendations'',
         strict = True,
         schema =
           SObject
             [(''summary'', SString),
              (''recommendations'',
               SArray
                 (SObject
                    [(''index'', SInteger (Some indexes)), (''reason'', SString)]
                    [''index'', ''reason'']
                    False)
                 (Some 8) (Some 8))]
             [''summary'', ''recommendations'']
             False\<rparr>\<rparr>"

subsection \<open>Reconciliation\<close>

text \<open>
  \<open>llmResult\<close>: the parsed \<open>output_text\<close>, of the type the schema declares. The index
  is an integer, which the model chooses freely: nothing in the handler checks it against
  the \<open>enum\<close>.
\<close>

record rec_item =
  item_index :: int
  item_reason :: string

record llm_result =
  summary :: string
  recommendations :: "rec_item list"

record recommendation = game +
  reason :: string

text \<open>\<open>pool[i]\<close> for an integer \<open>i\<close>: \<open>undefined\<close> outside the array.\<close>

definition at_index :: "'a list \<Rightarrow> int \<Rightarrow> 'a option" where
  "at_index xs i = (if 0 \<le> i \<and> i < int (length xs) then Some (xs ! nat i) else None)"

text \<open>
  Lines 242-251. A game is an object, hence truthy: \<open>!game\<close> holds exactly when
  \<open>pool[r.index]\<close> is \<open>undefined\<close>. The spread \<open>{...game, reason: r.reason}\<close> copies the
  fields of the game and adds the reason.
\<close>

definition finalResult :: "game list \<Rightarrow> rec_item list \<Rightarrow> recommendation list" where
  "finalResult pool recs =
     map (\<lambda>r. case at_index pool (item_index r) of
                None \<Rightarrow>
                  \<lparr>game_id = Null, name = Null, genres = Undefined, rating = Undefined,
                   slug = Undefined, reason = item_reason r\<rparr>
              | Some game \<Rightarrow>
                  \<lparr>game_id = game_id game, name = name game, genres = genres game,
                   rating = rating game, slug = slug game, reason = item_reason r\<rparr>)
       recs"

subsection \<open>The handler of POST /recommend\<close>

text \<open>
  \<open>req.body.favorites\<close>: \<open>None\<close> when the body has no such property.
\<close>

record request =
  body_favorites :: "json option"

text \<open>
  What \<open>res.status(n).json(b)\<close> sends. \<open>CaughtBody err\<close> is the body
  \<open>{error: err.message || err.toString()}\<close> of line 260, \<open>SummaryBody\<close> is
  \<open>{summary, recommendations}\<close> and \<open>ListBody\<close> is \<open>{recommendations}\<close>.
\<close>

datatype 'r body =
    ErrorBody string
  | CaughtBody error
  | SummaryBody string "'r list"
  | ListBody "'r list"

datatype 'r response = Response nat "'r body"

text \<open>
  \<open>favorites.map((f) => f.toLowerCase())\<close> throws at the first favorite that is not a
  string: no other JSON value has that method.
\<close>

fun favoriteStrings :: "json list \<Rightarrow> error + string list" where
  "favoriteStrings [] = Inr []"
| "favoriteStrings (JStr f # fs) =
     (case favoriteStrings fs of Inl err \<Rightarrow> Inl err | Inr rest \<Rightarrow> Inr (f # rest))"
| "favoriteStrings (v # fs) = Inl (TypeError v)"

text \<open>
  Lines 126-264, the function the route runs after \<open>authGuard\<close> has called \<open>next()\<close>.
  \<open>client\<close> is \<open>None\<close> when no API key was found at start-up; otherwise it is the
  function that sends a request and parses the \<open>output_text\<close> of the answer (lines
  201-240), ending in the parsed result or in what either step throws.
\<close>

definition recommend ::
  "(simplified_game list \<Rightarrow> string) \<Rightarrow> (llm_request \<Rightarrow> error + llm_result) option \<Rightarrow>
   request \<Rightarrow> int \<Rightarrow> error + game list \<Rightarrow> game world \<Rightarrow>
   recommendation response \<times> game world" where
  "recommend JSON_stringify client req now store w =
     (case client of
        None \<Rightarrow> (Response 500 (ErrorBody ''OpenAI is not configured on the server''), w)
      | Some create \<Rightarrow>
          (case body_favorites req of
             Some (JArr (f # fs)) \<Rightarrow>
               (case loadCandidateGames False now store w of
                  (Inl err, w1) \<Rightarrow> (Response 500 (CaughtBody err), w1)
                | (Inr candidates, w1) \<Rightarrow>
                    (case favoriteStrings (f # fs) of
                       Inl err \<Rightarrow> (Response 500 (CaughtBody err), w1)
                     | Inr favorites \<Rightarrow>
                         (let pool = selectPool candidates favorites;
                              request =
                                responses_request
                                  (prompt JSON_stringify favorites (simplified pool))
                                  (validIndexes (simplified pool));
                              w2 = w1\<lparr>llmCalls := llmCalls w1 @ [request]\<rparr>
                          in case create request of
                               Inl err \<Rightarrow> (Response 500 (CaughtBody err), w2)
                             | Inr llmResult \<Rightarrow>
                                 (Response 200
                                    (SummaryBody (summary llmResult)
                                       (finalResult pool (recommendations llmResult))),
                                  w2))))
           | _ \<Rightarrow> (Response 400 (ErrorBody ''favorites must be a non-empty array''), w)))"

section \<open>The id-based pipeline (index.js)\<close>

text \<open>
  The second file builds its own game objects from the documents (lines 43-49): the
  genres become the list of their names.
\<close>

record idv_game =
  idv_id :: "rat field"
  idv_name :: "string field"
  idv_genres :: "string field list field"
  idv_rating :: "rat field"
  idv_slug :: "string field"

definition idv_fromDoc :: "game \<Rightarrow> idv_game" where
  "idv_fromDoc d =
     \<lparr>idv_id = game_id d,
      idv_name = name d,
      idv_genres = Value (map genre_name (arr_or (genres d) [])),
      idv_rating = rating d,
      idv_slug = slug d\<rparr>"

text \<open>\<open>loadCandidateGames(force)\<close>, lines 34-56.\<close>

definition idv_loadCandidateGames ::
  "bool \<Rightarrow> int \<Rightarrow> error + game list \<Rightarrow> idv_game world \<Rightarrow>
   (error + idv_game list) \<times> idv_game world" where
  "idv_loadCandidateGames force now store w =
     (if \<not> force \<and> cachedGames w \<noteq> None \<and> now - cachedAt w < CACHE_TTL_MS
      then (Inr (the (cachedGames w)), w)
      else
        (let w1 = w\<lparr>storeFetches := storeFetches w + 1\<rparr> in
         case store of
           Inl err \<Rightarrow> (Inl err, w1)
         | Inr docs \<Rightarrow>
             (Inr (map idv_fromDoc docs),
              w1\<lparr>cachedGames := Some (map idv_fromDoc docs), cachedAt := now\<rparr>)))"

text \<open>\<open>filterByGenre(candidates, favorites)\<close>, lines 70-96.\<close>

definition idv_filterByGenre :: "idv_game list \<Rightarrow> string list \<Rightarrow> idv_game list" where
  "idv_filterByGenre candidates favorites =
     (let favLower = map toLowerCase favorites;
          favGames = filter (\<lambda>g. toLowerCase (str_or (idv_name g) []) \<in> set favLower) candidates;
          favGenres = set (concat (map (\<lambda>g. arr_or (idv_genres g) []) favGames))
      in if card favGenres = 0 then candidates
         else
           (let filtered =
                  filter (\<lambda>g. list_ex (\<lambda>genre. genre \<in> favGenres) (arr_or (idv_genres g) []))
                    candidates
            in if length filtered \<noteq> 0 then filtered else candidates))"

record idv_simplified_game =
  is_id :: "rat field"
  is_name :: "string field"
  is_genres :: "string field list field"
  is_rating :: "rat field"

text \<open>Lines 147-152.\<close>

definition idv_simplified :: "idv_game list \<Rightarrow> idv_simplified_game list" where
  "idv_simplified filteredCandidates =
     map (\<lambda>g. \<lparr>is_id = idv_id g, is_name = idv_name g, is_genres = idv_genres g,
               is_rating = idv_rating g\<rparr>)
       filteredCandidates"

text \<open>The template literal of lines 154-167; \<open>JSON.stringify(simplified)\<close> is a parameter.\<close>

definition idv_prompt_head :: string where
  \<open>idv_prompt_head = ''\<newline>User favorites: ''\<close>

definition idv_prompt_rules :: string where
  \<open>idv_prompt_rules =
     ''.\<newline>'' @
     ''\<newline>'' @
     ''Candidate games (JSON array):\<newline>''\<close>

definition idv_prompt_task :: string where
  \<open>idv_prompt_task =
     ''\<newline>'' @
     ''\<newline>'' @
     ''From ONLY these candidate games, select 5 games the user is most likely to enjoy.\<newline>'' @
     ''Return ONLY JSON like:\<newline>'' @
     ''{\<newline>'' @
     ''  "recommendations": [\<newline>'' @
     ''    { "id": number, "reason": string }\<newline>'' @
     ''  ]\<newline>'' @
     ''}\<newline>''\<close>

definition idv_prompt ::
  "(idv_simplified_game list \<Rightarrow> string) \<Rightarrow> string list \<Rightarrow> idv_simplified_game list \<Rightarrow> string" where
  "idv_prompt JSON_stringify favorites simp =
     idv_prompt_head @ join '', '' favorites @ idv_prompt_rules @ JSON_stringify simp @
     idv_prompt_task"

text \<open>The argument of \<open>client.responses.create\<close>, lines 169-198.\<close>

definition idv_responses_request :: "string \<Rightarrow> llm_request" where
  "idv_responses_request text =
     \<lparr>model = ''gpt-4.1-mini'',
      input = text,
      text_format =
        \<lparr>fmt_type = ''json_schema'',
         fmt_name = ''game_recommendations'',
         strict = True,
         schema =
           SObject
             [(''recommendations'',
               SArray
                 (SObject [(''id'', SNumber), (''reason'', SString)] [''id'', ''reason''] False)
                 None None)]
             [''recommendations'']
             False\<rparr>\<rparr>"

record idv_rec_item =
  item_id :: rat
  idv_item_reason :: string

record idv_llm_result =
  idv_recommendations :: "idv_rec_item list"

record idv_recommendation = idv_game +
  idv_reason :: string

text \<open>
  Lines 203-214. \<open>candidates.find\<close> returns the first game whose \<open>id\<close> is strictly
  equal to the number \<open>r.id\<close>, or \<open>undefined\<close>.
\<close>

definition idv_finalResult :: "idv_game list \<Rightarrow> idv_rec_item list \<Rightarrow> idv_recommendation list" where
  "idv_finalResult candidates recs =
     map (\<lambda>r. case find (\<lambda>g. idv_id g = Value (item_id r)) candidates of
                None \<Rightarrow>
                  \<lparr>idv_id = Value (item_id r), idv_name = Null, idv_genres = Undefined,
                   idv_rating = Undefined, idv_slug = Undefined, idv_reason = idv_item_reason r\<rparr>
              | Some game \<Rightarrow>
                  \<lparr>idv_id = idv_id game, idv_name = idv_name game, idv_genres = idv_genres game,
                   idv_rating = idv_rating game, idv_slug = idv_slug game,
                   idv_reason = idv_item_reason r\<rparr>)
       recs"

text \<open>
  Lines 129-221. The client always exists here; every exception ends in the same 500
  body.
\<close>

definition idv_recommend ::
  "(idv_simplified_game list \<Rightarrow> string) \<Rightarrow> (llm_request \<Rightarrow> error + idv_llm_result) \<Rightarrow>
   request \<Rightarrow> int \<Rightarrow> error + game list \<Rightarrow> idv_game world \<Rightarrow>
   idv_recommendation response \<times> idv_game world" where
  "idv_recommend JSON_stringify create req now store w =
     (case body_favorites req of
        Some (JArr (f # fs)) \<Rightarrow>
          (case idv_loadCandidateGames False now store w of
             (Inl err, w1) \<Rightarrow> (Response 500 (ErrorBody ''Internal LLM or Firestore error''), w1)
           | (Inr candidates, w1) \<Rightarrow>
               (case favoriteStrings (f # fs) of
                  Inl err \<Rightarrow> (Response 500 (ErrorBody ''Internal LLM or Firestore error''), w1)
                | Inr favorites \<Rightarrow>
                    (let filteredCandidates = idv_filterByGenre candidates favorites;
                         request =
                           idv_responses_request
                             (idv_prompt JSON_stringify favorites (idv_simplified filteredCandidates));
                         w2 = w1\<lparr>llmCalls := llmCalls w1 @ [request]\<rparr>
                     in case create request of
                          Inl err \<Rightarrow>
                            (Response 500 (ErrorBody ''Internal LLM or Firestore error''), w2)
                        | Inr llmResult \<Rightarrow>
                            (Response 200
                               (ListBody (idv_finalResult candidates (idv_recommendations llmResult))),
                             w2))))
      | _ \<Rightarrow> (Response 400 (ErrorBody ''favorites must be a non-empty array''), w))"

section \<open>Vocabulary of the properties\<close>

text \<open>
  Some favorite equals, under case-insensitive comparison, the name some candidate has.
  A candidate whose \<open>name\<close> is absent or \<open>null\<close> has no name.
\<close>

definition favoriteEqualsName :: "string field list \<Rightarrow> string list \<Rightarrow> bool" where
  "favoriteEqualsName names favorites =
     list_ex (\<lambda>n. list_ex (\<lambda>f. case n of Value s \<Rightarrow> toLowerCase f = toLowerCase s | _ \<Rightarrow> False)
                favorites) names"

text \<open>
  The same, with a candidate whose \<open>name\<close> is absent or \<open>null\<close> compared as the empty
  string.
\<close>

definition favoriteMatchesName :: "string field list \<Rightarrow> string list \<Rightarrow> bool" where
  "favoriteMatchesName names favorites =
     list_ex (\<lambda>n. list_ex (\<lambda>f. toLowerCase f = toLowerCase (str_or n [])) favorites) names"

text \<open>
  The shape the spec declares for the model's answer over a pool of \<open>n\<close> games: an object
  with a string \<open>summary\<close> and a list \<open>recommendations\<close> of exactly 8 objects, each
  with an integer \<open>index\<close> below \<open>n\<close> and a string \<open>reason\<close>, and no other key at
  either level.
\<close>

definition declaredItem :: "nat \<Rightarrow> json \<Rightarrow> bool" where
  "declaredItem n v =
     (case v of
        JObj kvs \<Rightarrow>
          ''index'' \<in> fst ` set kvs \<and> ''reason'' \<in> fst ` set kvs \<and>
          list_all (\<lambda>(k, x).
              if k = ''index''
              then (case x of JNum q \<Rightarrow> q = of_int \<lfloor>q\<rfloor> \<and> 0 \<le> q \<and> q < of_nat n | _ \<Rightarrow> False)
              else if k = ''reason'' then (case x of JStr _ \<Rightarrow> True | _ \<Rightarrow> False)
              else False) kvs
      | _ \<Rightarrow> False)"

definition declaredOutput :: "nat \<Rightarrow> json \<Rightarrow> bool" where
  "declaredOutput n v =
     (case v of
        JObj kvs \<Rightarrow>
          ''summary'' \<in> fst ` set kvs \<and> ''recommendations'' \<in> fst ` set kvs \<and>
          list_all (\<lambda>(k, x).
              if k = ''summary'' then (case x of JStr _ \<Rightarrow> True | _ \<Rightarrow> False)
              else if k = ''recommendations''
              then (case x of JArr vs \<Rightarrow> length vs = 8 \<and> list_all (declaredItem n) vs | _ \<Rightarrow> False)
              else False) kvs
      | _ \<Rightarrow> False)"

text \<open>
  The \<open>favorites\<close> property is missing, is not a list, or is the empty list.
\<close>

definition invalidFavorites :: "json option \<Rightarrow> bool" where
  "invalidFavorites v = (case v of None \<Rightarrow> True | Some (JArr fs) \<Rightarrow> fs = [] | Some _ \<Rightarrow> True)"

text \<open>
  What the schema of index.js declares: an object with a list \<open>recommendations\<close> of any
  length, each item an object with a number \<open>id\<close> and a string \<open>reason\<close>, and no other
  key at either level.
\<close>

definition idv_admittedItem :: "json \<Rightarrow> bool" where
  "idv_admittedItem v =
     (case v of
        JObj kvs \<Rightarrow>
          ''id'' \<in> fst ` set kvs \<and> ''reason'' \<in> fst ` set kvs \<and>
          list_all (\<lambda>(k, x).
              if k = ''id'' then (case x of JNum _ \<Rightarrow> True | _ \<Rightarrow> False)
              else if k = ''reason'' then (case x of JStr _ \<Rightarrow> True | _ \<Rightarrow> False)
              else False) kvs
      | _ \<Rightarrow> False)"

definition idv_admittedOutput :: "json \<Rightarrow> bool" where
  "idv_admittedOutput v =
     (case v of
        JObj kvs \<Rightarrow>
          ''recommendations'' \<in> fst ` set kvs \<and>
          list_all (\<lambda>(k, x).
              if k = ''recommendations''
              then (case x of JArr vs \<Rightarrow> list_all idv_admittedItem vs | _ \<Rightarrow> False)
              else False) kvs
      | _ \<Rightarrow> False)"

section \<open>Example data\<close>

definition example_game :: "rat \<Rightarrow> string \<Rightarrow> string \<Rightarrow> game" where
  "example_game i n g =
     \<lparr>game_id = Value i, name = Value n, genres = Value [\<lparr>genre_name = Value g\<rparr>],
      rating = Value (9 / 2), slug = Undefined\<rparr>"

definition unnamed_game :: "string \<Rightarrow> game" where
  "unnamed_game g =
     \<lparr>game_id = Undefined, name = Undefined, genres = Value [\<lparr>genre_name = Value g\<rparr>],
      rating = Undefined, slug = Undefined\<rparr>"

definition puzzle_games :: "game list" where
  "puzzle_games =
     [example_game 1 ''Portal 2'' ''Puzzle'', example_game 2 ''Tetris'' ''Puzzle'',
      example_game 3 ''Baba Is You'' ''Puzzle'', example_game 4 ''The Witness'' ''Puzzle'',
      example_game 5 ''Braid'' ''Puzzle'', example_game 6 ''Fez'' ''Puzzle'',
      example_game 7 ''Limbo'' ''Puzzle'', example_game 8 ''Inside'' ''Puzzle'',
      example_game 9 ''Myst'' ''Puzzle'']"

definition empty_world :: "'g world" where
  "empty_world = \<lparr>cachedGames = None, cachedAt = 0, storeFetches = 0, llmCalls = []\<rparr>"

definition example_recs :: "rec_item list" where
  "example_recs =
     [\<lparr>item_index = 1, item_reason = ''falling blocks''\<rparr>,
      \<lparr>item_index = 999, item_reason = ''no such game''\<rparr>,
      \<lparr>item_index = - 1, item_reason = ''before the first''\<rparr>]"

definition no_text :: "'a \<Rightarrow> string" where
  "no_text x = []"

definition example_answer :: "llm_request \<Rightarrow> error + llm_result" where
  "example_answer request = Inr \<lparr>summary = ''puzzles'', recommendations = example_recs\<rparr>"

definition example_items :: "nat list \<Rightarrow> json" where
  "example_items positions =
     JArr (map (\<lambda>i. JObj [(''index'', JNum (of_nat i)), (''reason'', JStr ''a puzzle game'')])
       positions)"

definition example_output :: "nat list \<Rightarrow> json" where
  "example_output positions =
     JObj [(''summary'', JStr ''puzzles''), (''recommendations'', example_items positions)]"

definition example_docs :: "game list" where
  "example_docs =
     [example_game 1 ''Portal 2'' ''Puzzle'', example_game 2 ''Tetris'' ''Puzzle'',
      example_game 10 ''Doom'' ''Action'', example_game 10 ''Doom II'' ''Action'']"

definition idv_example_candidates :: "idv_game list" where
  "idv_example_candidates = map idv_fromDoc example_docs"

definition idv_example_recs :: "idv_rec_item list" where
  "idv_example_recs =
     [\<lparr>item_id = 10, idv_item_reason = ''a shooter''\<rparr>,
      \<lparr>item_id = 77, idv_item_reason = ''not in the store''\<rparr>]"

definition idv_example_answer :: "llm_request \<Rightarrow> error + idv_llm_result" where
  "idv_example_answer request = Inr \<lparr>idv_recommendations = idv_example_recs\<rparr>"

section \<open>Genre filter\<close>

lemma filterByGenre_cases:
  "filterByGenre candidates favorites = candidates \<or>
   (\<exists>P. filterByGenre candidates favorites = filter P candidates \<and> filter P candidates \<noteq> [])"
  unfolding filterByGenre_def Let_def
  by (auto simp del: card_0_eq List.finite_set)

lemma idv_filterByGenre_cases:
  "idv_filterByGenre candidates favorites = candidates \<or>
   (\<exists>P. idv_filterByGenre candidates favorites = filter P candidates \<and>
        filter P candidates \<noteq> [])"
  unfolding idv_filterByGenre_def Let_def
  by (auto simp del: card_0_eq List.finite_set)

lemma subseq_filterByGenre: "subseq (filterByGenre candidates favorites) candidates"
  using filterByGenre_cases [of candidates favorites] by (auto simp: subseq_filter_left)

lemma favGames_empty:
  assumes "\<not> favoriteMatchesName (map nm candidates) favorites"
  shows "filter (\<lambda>g. toLowerCase (str_or (nm g) []) \<in> set (map toLowerCase favorites))
           candidates = []"
  using assms unfolding favoriteMatchesName_def list_ex_iff filter_empty_conv
  by (metis (mono_tags, lifting) imageE image_eqI list.set_map)

text \<open>
  Claim C4. For every non-empty candidate list and every favorites list,
  \<open>filterByGenre\<close> returns a non-empty pool, in both files.
\<close>

theorem filterByGenre_nonempty:
  "(candidates \<noteq> [] \<longrightarrow> filterByGenre candidates favorites \<noteq> []) \<and>
   (idv_candidates \<noteq> [] \<longrightarrow> idv_filterByGenre idv_candidates favorites \<noteq> [])"
  using filterByGenre_cases [of candidates favorites]
    idv_filterByGenre_cases [of idv_candidates favorites]
  by auto

theorem filterByGenre_nonempty_witness:
  "[example_game 2 ''Tetris'' ''Puzzle'', unnamed_game ''Action''] \<noteq> [] \<and>
   filterByGenre [example_game 2 ''Tetris'' ''Puzzle'', unnamed_game ''Action''] [''TETRIS'']
     = [example_game 2 ''Tetris'' ''Puzzle''] \<and>
   filterByGenre [example_game 2 ''Tetris'' ''Puzzle'', unnamed_game ''Action''] [''TETRIS'']
     \<noteq> [] \<and>
   [idv_fromDoc (unnamed_game ''Action'')] \<noteq> [] \<and>
   idv_filterByGenre [idv_fromDoc (unnamed_game ''Action'')] [''TETRIS''] \<noteq> []"
proof -
  have "filterByGenre [example_game 2 ''Tetris'' ''Puzzle'', unnamed_game ''Action''] [''TETRIS'']
     = [example_game 2 ''Tetris'' ''Puzzle'']"
    by code_simp
  then show ?thesis
    using filterByGenre_nonempty
      [of "[example_game 2 ''Tetris'' ''Puzzle'', unnamed_game ''Action'']" "[''TETRIS'']"
        "[idv_fromDoc (unnamed_game ''Action'')]"]
    by simp
qed

text \<open>
  Claim C5, as amended. If no favorite equals, under case-insensitive comparison, the
  name of any candidate, where a candidate whose name is absent, \<open>null\<close> or empty is
  compared as the empty string (\<open>g.name || ""\<close>), then \<open>filterByGenre\<close> returns the
  candidate list unchanged, in both files.
\<close>

theorem filterByGenre_identity:
  "(\<not> favoriteMatchesName (map name candidates) favorites \<longrightarrow>
      filterByGenre candidates favorites = candidates) \<and>
   (\<not> favoriteMatchesName (map idv_name idv_candidates) favorites \<longrightarrow>
      idv_filterByGenre idv_candidates favorites = idv_candidates)"
proof (intro conjI impI)
  assume "\<not> favoriteMatchesName (map name candidates) favorites"
  from favGames_empty [OF this] show "filterByGenre candidates favorites = candidates"
    unfolding filterByGenre_def Let_def by simp
next
  assume "\<not> favoriteMatchesName (map idv_name idv_candidates) favorites"
  from favGames_empty [OF this]
  show "idv_filterByGenre idv_candidates favorites = idv_candidates"
    unfolding idv_filterByGenre_def Let_def by simp
qed

theorem filterByGenre_identity_witness:
  "\<not> favoriteMatchesName (map name puzzle_games) [''Unknown Game XYZ''] \<and>
   filterByGenre puzzle_games [''Unknown Game XYZ''] = puzzle_games \<and>
   \<not> favoriteMatchesName (map idv_name (map idv_fromDoc puzzle_games)) [''Unknown Game XYZ''] \<and>
   idv_filterByGenre (map idv_fromDoc puzzle_games) [''Unknown Game XYZ'']
     = map idv_fromDoc puzzle_games"
proof -
  have a: "\<not> favoriteMatchesName (map name puzzle_games) [''Unknown Game XYZ'']"
    by code_simp
  have b: "\<not> favoriteMatchesName (map idv_name (map idv_fromDoc puzzle_games))
               [''Unknown Game XYZ'']"
    by code_simp
  from a b
    filterByGenre_identity
      [of puzzle_games "[''Unknown Game XYZ'']" "map idv_fromDoc puzzle_games"]
  show ?thesis by simp
qed

text \<open>
  The claim as the spec words it fails: the empty favorite equals the name of neither
  candidate below, the first having none, and yet it selects the first as a favorite game
  and the pool shrinks to its genre.
\<close>

theorem filterByGenre_identity_counterexample:
  "\<not> favoriteEqualsName
       (map name [unnamed_game ''Action'', example_game 2 ''Tetris'' ''Puzzle'']) [''''] \<and>
   filterByGenre [unnamed_game ''Action'', example_game 2 ''Tetris'' ''Puzzle''] [''''] =
     [unnamed_game ''Action''] \<and>
   filterByGenre [unnamed_game ''Action'', example_game 2 ''Tetris'' ''Puzzle''] [''''] \<noteq>
     [unnamed_game ''Action'', example_game 2 ''Tetris'' ''Puzzle'']"
  by code_simp

section \<open>Pool selection\<close>

lemma subseq_excludeFavorites: "subseq (excludeFavorites genreFiltered favorites) genreFiltered"
  by (simp add: excludeFavorites_def)

lemma selectPool_cases:
  "selectPool candidates favorites =
     (if 8 \<le> length (excludeFavorites (filterByGenre candidates favorites) favorites)
      then excludeFavorites (filterByGenre candidates favorites) favorites
      else if 8 \<le> length (filterByGenre candidates favorites)
      then filterByGenre candidates favorites
      else candidates)"
  by (simp add: selectPool_def Let_def not_less)

text \<open>
  Claim C2. The selected pool has at least \<open>min 8 |candidates|\<close> games whenever there are
  at least 8 candidates, and it is the full candidate list when there are fewer than 8.
\<close>

theorem selectPool_size:
  "(8 \<le> length candidates \<longrightarrow>
      min 8 (length candidates) \<le> length (selectPool candidates favorites)) \<and>
   (length candidates < 8 \<longrightarrow> selectPool candidates favorites = candidates)"
  using subseq_filterByGenre [of candidates favorites, THEN list_emb_length]
    subseq_excludeFavorites [of "filterByGenre candidates favorites" favorites,
      THEN list_emb_length]
  by (auto simp: selectPool_cases)

theorem selectPool_size_witness:
  "8 \<le> length puzzle_games \<and>
   min 8 (length puzzle_games) \<le> length (selectPool puzzle_games [''portal 2'']) \<and>
   length (take 3 puzzle_games) < 8 \<and>
   selectPool (take 3 puzzle_games) [''portal 2''] = take 3 puzzle_games"
proof -
  have a: "8 \<le> length puzzle_games" by (simp add: puzzle_games_def)
  have b: "length (take 3 puzzle_games) < 8" by (simp add: puzzle_games_def)
  from a b selectPool_size [of puzzle_games "[''portal 2'']"]
    selectPool_size [of "take 3 puzzle_games" "[''portal 2'']"]
  show ?thesis by simp
qed

text \<open>
  Claim C3. The three stages form a chain: the exclusion-filtered list is a sub-list of
  the genre-filtered list, which is a sub-list of the candidates. The selected pool is one
  of the stages; when some stage has at least 8 games, the pool has at least 8 games and
  is a sub-list of every such stage (the narrowest one); when no stage has 8 games, the
  pool is the full candidate list.
\<close>

theorem selectPool_narrowest:
  "(let genreFiltered = filterByGenre candidates favorites;
        exclusionFiltered = excludeFavorites genreFiltered favorites;
        stages = [exclusionFiltered, genreFiltered, candidates];
        pool = selectPool candidates favorites
    in subseq exclusionFiltered genreFiltered \<and> subseq genreFiltered candidates \<and>
       set exclusionFiltered \<subseteq> set genreFiltered \<and> set genreFiltered \<subseteq> set candidates \<and>
       pool \<in> set stages \<and>
       (\<forall>stage \<in> set stages. 8 \<le> length stage \<longrightarrow> 8 \<le> length pool \<and> subseq pool stage) \<and>
       ((\<forall>stage \<in> set stages. length stage < 8) \<longrightarrow> pool = candidates))"
proof -
  have a: "subseq (excludeFavorites (filterByGenre candidates favorites) favorites)
             (filterByGenre candidates favorites)"
    by (rule subseq_excludeFavorites)
  have b: "subseq (filterByGenre candidates favorites) candidates"
    by (rule subseq_filterByGenre)
  have c: "subseq (excludeFavorites (filterByGenre candidates favorites) favorites) candidates"
    using a b by (rule subseq_order.order_trans)
  note la = list_emb_length [OF a] and lb = list_emb_length [OF b]
  have sa: "set (excludeFavorites (filterByGenre candidates favorites) favorites)
              \<subseteq> set (filterByGenre candidates favorites)"
    by (simp add: excludeFavorites_def)
  have sb: "set (filterByGenre candidates favorites) \<subseteq> set candidates"
    using filterByGenre_cases [of candidates favorites] by auto
  show ?thesis
    unfolding Let_def
    using a b c la lb sa sb
    by (auto simp: selectPool_cases)
qed

theorem selectPool_narrowest_witness:
  "(let genreFiltered = filterByGenre puzzle_games [''portal 2''];
        exclusionFiltered = excludeFavorites genreFiltered [''portal 2''];
        pool = selectPool puzzle_games [''portal 2'']
    in length exclusionFiltered = 8 \<and> length genreFiltered = 9 \<and> length puzzle_games = 9 \<and>
       pool = exclusionFiltered \<and> subseq pool genreFiltered \<and> subseq pool puzzle_games) \<and>
   (let genreFiltered = filterByGenre (take 8 puzzle_games) [''portal 2''];
        exclusionFiltered = excludeFavorites genreFiltered [''portal 2''];
        pool = selectPool (take 8 puzzle_games) [''portal 2'']
    in length exclusionFiltered = 7 \<and> length genreFiltered = 8 \<and>
       pool = genreFiltered \<and> subseq pool (take 8 puzzle_games)) \<and>
   (let genreFiltered = filterByGenre (take 3 puzzle_games) [''portal 2''];
        exclusionFiltered = excludeFavorites genreFiltered [''portal 2''];
        pool = selectPool (take 3 puzzle_games) [''portal 2'']
    in length exclusionFiltered = 2 \<and> length genreFiltered = 3 \<and>
       length (take 3 puzzle_games) = 3 \<and> pool = take 3 puzzle_games)"
proof -
  have a: "length (excludeFavorites (filterByGenre puzzle_games [''portal 2'']) [''portal 2'']) = 8"
    "length (filterByGenre puzzle_games [''portal 2'']) = 9"
    "length puzzle_games = 9"
    by code_simp+
  have b:
    "length (excludeFavorites (filterByGenre (take 8 puzzle_games) [''portal 2''])
       [''portal 2'']) = 7"
    "length (filterByGenre (take 8 puzzle_games) [''portal 2'']) = 8"
    by code_simp+
  have c:
    "length (excludeFavorites (filterByGenre (take 3 puzzle_games) [''portal 2''])
       [''portal 2'']) = 2"
    "length (filterByGenre (take 3 puzzle_games) [''portal 2'']) = 3"
    "length (take 3 puzzle_games) = 3"
    by code_simp+
  from a selectPool_narrowest [of puzzle_games "[''portal 2'']"]
  have 1: "(let genreFiltered = filterByGenre puzzle_games [''portal 2''];
        exclusionFiltered = excludeFavorites genreFiltered [''portal 2''];
        pool = selectPool puzzle_games [''portal 2'']
    in length exclusionFiltered = 8 \<and> length genreFiltered = 9 \<and> length puzzle_games = 9 \<and>
       pool = exclusionFiltered \<and> subseq pool genreFiltered \<and> subseq pool puzzle_games)"
    unfolding Let_def by (auto dest: subseq_same_length)
  from b selectPool_narrowest [of "take 8 puzzle_games" "[''portal 2'']"]
  have 2: "(let genreFiltered = filterByGenre (take 8 puzzle_games) [''portal 2''];
        exclusionFiltered = excludeFavorites genreFiltered [''portal 2''];
        pool = selectPool (take 8 puzzle_games) [''portal 2'']
    in length exclusionFiltered = 7 \<and> length genreFiltered = 8 \<and>
       pool = genreFiltered \<and> subseq pool (take 8 puzzle_games))"
    unfolding Let_def by (auto dest: subseq_same_length)
  from c selectPool_narrowest [of "take 3 puzzle_games" "[''portal 2'']"]
  have 3: "(let genreFiltered = filterByGenre (take 3 puzzle_games) [''portal 2''];
        exclusionFiltered = excludeFavorites genreFiltered [''portal 2''];
        pool = selectPool (take 3 puzzle_games) [''portal 2'']
    in length exclusionFiltered = 2 \<and> length genreFiltered = 3 \<and>
       length (take 3 puzzle_games) = 3 \<and> pool = take 3 puzzle_games)"
    unfolding Let_def by auto
  from 1 2 3 show ?thesis by blast
qed

section \<open>Reconciliation\<close>

lemma recommend_answers:
  assumes "favoriteStrings (f # fs) = Inr favorites"
    and "loadCandidateGames False now store w = (Inr candidates, w1)"
    and "create (responses_request (prompt JSON_stringify favorites
            (simplified (selectPool candidates favorites)))
            (validIndexes (simplified (selectPool candidates favorites)))) = Inr llmResult"
  shows "recommend JSON_stringify (Some create) \<lparr>body_favorites = Some (JArr (f # fs))\<rparr>
            now store w =
         (Response 200 (SummaryBody (summary llmResult)
            (finalResult (selectPool candidates favorites) (recommendations llmResult))),
          w1\<lparr>llmCalls := llmCalls w1 @
             [responses_request (prompt JSON_stringify favorites
                (simplified (selectPool candidates favorites)))
                (validIndexes (simplified (selectPool candidates favorites)))]\<rparr>)"
  using assms by (simp add: recommend_def Let_def)

text \<open>
  Claim C1. The reconciler returns one record per item of the model output. An item whose
  index lies in \<open>[0, |pool|)\<close> yields the fields of \<open>pool[index]\<close> plus the item's
  reason; an item whose index lies outside yields the record with \<open>id\<close> and \<open>name\<close>
  \<open>null\<close>, no other field of a game, and the item's reason. Nothing is thrown: once the
  model has answered, the handler responds 200 with these records, whatever the indices.
\<close>

theorem finalResult_reconciles:
  "length (finalResult pool recs) = length recs \<and>
   (\<forall>k < length recs.
      (0 \<le> item_index (recs ! k) \<and> item_index (recs ! k) < int (length pool) \<longrightarrow>
         game.truncate (finalResult pool recs ! k) = pool ! nat (item_index (recs ! k)) \<and>
         reason (finalResult pool recs ! k) = item_reason (recs ! k)) \<and>
      (\<not> (0 \<le> item_index (recs ! k) \<and> item_index (recs ! k) < int (length pool)) \<longrightarrow>
         finalResult pool recs ! k =
           \<lparr>game_id = Null, name = Null, genres = Undefined, rating = Undefined,
            slug = Undefined, reason = item_reason (recs ! k)\<rparr>)) \<and>
   (favoriteStrings (f # fs) = Inr favorites \<and>
    loadCandidateGames False now store w = (Inr candidates, w1) \<and>
    pool = selectPool candidates favorites \<and>
    create (responses_request (prompt JSON_stringify favorites (simplified pool))
              (validIndexes (simplified pool)))
      = Inr \<lparr>summary = overall, recommendations = recs\<rparr> \<longrightarrow>
    fst (recommend JSON_stringify (Some create) \<lparr>body_favorites = Some (JArr (f # fs))\<rparr>
           now store w)
      = Response 200 (SummaryBody overall (finalResult pool recs)))"
proof (intro conjI allI impI)
  show "length (finalResult pool recs) = length recs"
    by (simp add: finalResult_def)
next
  fix k
  assume "k < length recs"
    and "0 \<le> item_index (recs ! k) \<and> item_index (recs ! k) < int (length pool)"
  then show "game.truncate (finalResult pool recs ! k) = pool ! nat (item_index (recs ! k))"
    and "reason (finalResult pool recs ! k) = item_reason (recs ! k)"
    by (simp_all add: finalResult_def at_index_def game.truncate_def)
next
  fix k
  assume "k < length recs"
    and "\<not> (0 \<le> item_index (recs ! k) \<and> item_index (recs ! k) < int (length pool))"
  then show "finalResult pool recs ! k =
           \<lparr>game_id = Null, name = Null, genres = Undefined, rating = Undefined,
            slug = Undefined, reason = item_reason (recs ! k)\<rparr>"
    by (auto simp: finalResult_def at_index_def)
next
  assume h: "favoriteStrings (f # fs) = Inr favorites \<and>
      loadCandidateGames False now store w = (Inr candidates, w1) \<and>
      pool = selectPool candidates favorites \<and>
      create (responses_request (prompt JSON_stringify favorites (simplified pool))
                (validIndexes (simplified pool)))
        = Inr \<lparr>summary = overall, recommendations = recs\<rparr>"
  from h have 1: "favoriteStrings (f # fs) = Inr favorites"
    and 2: "loadCandidateGames False now store w = (Inr candidates, w1)"
    and 3: "pool = selectPool candidates favorites"
    by blast+
  from h have 4: "create (responses_request (prompt JSON_stringify favorites (simplified pool))
                (validIndexes (simplified pool)))
        = Inr \<lparr>summary = overall, recommendations = recs\<rparr>"
    by blast
  show "fst (recommend JSON_stringify (Some create) \<lparr>body_favorites = Some (JArr (f # fs))\<rparr>
             now store w)
        = Response 200 (SummaryBody overall (finalResult pool recs))"
    using 1 2 4 [unfolded 3]
      recommend_answers [of f fs favorites now store w candidates w1 create JSON_stringify
        "\<lparr>summary = overall, recommendations = recs\<rparr>"]
    by (simp add: 3)
qed

theorem finalResult_reconciles_witness:
  "length (finalResult puzzle_games example_recs) = 3 \<and>
   game.truncate (finalResult puzzle_games example_recs ! 0)
     = example_game 2 ''Tetris'' ''Puzzle'' \<and>
   reason (finalResult puzzle_games example_recs ! 0) = ''falling blocks'' \<and>
   finalResult puzzle_games example_recs ! 1 =
     \<lparr>game_id = Null, name = Null, genres = Undefined, rating = Undefined,
      slug = Undefined, reason = ''no such game''\<rparr> \<and>
   finalResult puzzle_games example_recs ! 2 =
     \<lparr>game_id = Null, name = Null, genres = Undefined, rating = Undefined,
      slug = Undefined, reason = ''before the first''\<rparr> \<and>
   fst (recommend (\<lambda>simp. [])
          (Some (\<lambda>request. Inr \<lparr>summary = ''puzzles'', recommendations = example_recs\<rparr>))
          \<lparr>body_favorites = Some (JArr [JStr ''Unknown Game XYZ''])\<rparr> 5 (Inr puzzle_games)
          empty_world)
     = Response 200 (SummaryBody ''puzzles'' (finalResult puzzle_games example_recs))"
proof -
  have len: "length example_recs = 3" "length puzzle_games = 9"
    by (simp_all add: example_recs_def puzzle_games_def)
  have items:
    "item_index (example_recs ! 0) = 1" "item_reason (example_recs ! 0) = ''falling blocks''"
    "item_index (example_recs ! 1) = 999" "item_reason (example_recs ! 1) = ''no such game''"
    "item_index (example_recs ! Suc 0) = 999"
    "item_reason (example_recs ! Suc 0) = ''no such game''"
    "item_index (example_recs ! 2) = - 1" "item_reason (example_recs ! 2) = ''before the first''"
    by (simp_all add: example_recs_def)
  have p1: "puzzle_games ! Suc 0 = example_game 2 ''Tetris'' ''Puzzle''"
    by (simp add: puzzle_games_def)
  have sel: "puzzle_games = selectPool puzzle_games [''Unknown Game XYZ'']"
    by code_simp
  have load: "loadCandidateGames False 5 (Inr puzzle_games) empty_world
     = (Inr puzzle_games,
        \<lparr>cachedGames = Some puzzle_games, cachedAt = 5, storeFetches = 1, llmCalls = []\<rparr>)"
    by (simp add: loadCandidateGames_def empty_world_def)
  have favs: "favoriteStrings [JStr ''Unknown Game XYZ''] = Inr [''Unknown Game XYZ'']"
    by simp
  note T = finalResult_reconciles [of puzzle_games example_recs "JStr ''Unknown Game XYZ''" "[]"
      "[''Unknown Game XYZ'']" 5 "Inr puzzle_games" empty_world puzzle_games
      "\<lparr>cachedGames = Some puzzle_games, cachedAt = 5, storeFetches = 1, llmCalls = []\<rparr>"
      "\<lambda>request. Inr \<lparr>summary = ''puzzles'', recommendations = example_recs\<rparr>"
      "\<lambda>simp. []" "''puzzles''"]
  have k: "(0::nat) < 3" "(1::nat) < 3" "(2::nat) < 3" by simp_all
  from T have a: "length (finalResult puzzle_games example_recs) = 3"
    by (simp add: len)
  from T [THEN conjunct2, THEN conjunct1, rule_format, of 0]
  have b: "game.truncate (finalResult puzzle_games example_recs ! 0)
     = example_game 2 ''Tetris'' ''Puzzle'' \<and>
   reason (finalResult puzzle_games example_recs ! 0) = ''falling blocks''"
    by (simp add: len items p1)
  from T [THEN conjunct2, THEN conjunct1, rule_format, of 1]
  have c: "finalResult puzzle_games example_recs ! 1 =
     \<lparr>game_id = Null, name = Null, genres = Undefined, rating = Undefined,
      slug = Undefined, reason = ''no such game''\<rparr>"
    by (simp add: len items)
  from T [THEN conjunct2, THEN conjunct1, rule_format, of 2]
  have d: "finalResult puzzle_games example_recs ! 2 =
     \<lparr>game_id = Null, name = Null, genres = Undefined, rating = Undefined,
      slug = Undefined, reason = ''before the first''\<rparr>"
    by (simp add: len items)
  from T [THEN conjunct2, THEN conjunct2] load favs sel
  have e: "fst (recommend (\<lambda>simp. [])
          (Some (\<lambda>request. Inr \<lparr>summary = ''puzzles'', recommendations = example_recs\<rparr>))
          \<lparr>body_favorites = Some (JArr [JStr ''Unknown Game XYZ''])\<rparr> 5 (Inr puzzle_games)
          empty_world)
     = Response 200 (SummaryBody ''puzzles'' (finalResult puzzle_games example_recs))"
    by simp
  from a b c d e show ?thesis by simp
qed

section \<open>Candidate cache\<close>

text \<open>
  Claim C6. The TTL is 10 minutes (600000 ms). Two reads without \<open>force\<close> at times
  within the TTL of the cached timestamp both return the cached list and leave the state,
  and so the number of store reads, as it is. A read that is forced, or finds no cached
  list, or comes when \<open>now - cachedAt\<close> has reached the TTL, makes exactly one store
  read. Both files.
\<close>

theorem loadCandidateGames_cache:
  "CACHE_TTL_MS = 600000 \<and>
   (cachedGames w = Some cached \<and> now - cachedAt w < 600000 \<and> later - cachedAt w < 600000 \<longrightarrow>
      loadCandidateGames False now store w = (Inr cached, w) \<and>
      loadCandidateGames False later store' (snd (loadCandidateGames False now store w))
        = (Inr cached, w)) \<and>
   (force \<or> cachedGames w = None \<or> 600000 \<le> now - cachedAt w \<longrightarrow>
      storeFetches (snd (loadCandidateGames force now store w)) = storeFetches w + 1) \<and>
   (cachedGames iw = Some icached \<and> now - cachedAt iw < 600000 \<and>
    later - cachedAt iw < 600000 \<longrightarrow>
      idv_loadCandidateGames False now store iw = (Inr icached, iw) \<and>
      idv_loadCandidateGames False later store' (snd (idv_loadCandidateGames False now store iw))
        = (Inr icached, iw)) \<and>
   (force \<or> cachedGames iw = None \<or> 600000 \<le> now - cachedAt iw \<longrightarrow>
      storeFetches (snd (idv_loadCandidateGames force now store iw)) = storeFetches iw + 1)"
  by (auto simp: loadCandidateGames_def idv_loadCandidateGames_def CACHE_TTL_MS_def Let_def
      split: sum.splits)

theorem loadCandidateGames_cache_witness:
  "loadCandidateGames False 1000 (Inr puzzle_games) empty_world
     = (Inr puzzle_games,
        \<lparr>cachedGames = Some puzzle_games, cachedAt = 1000, storeFetches = 1, llmCalls = []\<rparr>) \<and>
   loadCandidateGames False 2000 (Inr [])
       \<lparr>cachedGames = Some puzzle_games, cachedAt = 1000, storeFetches = 1, llmCalls = []\<rparr>
     = (Inr puzzle_games,
        \<lparr>cachedGames = Some puzzle_games, cachedAt = 1000, storeFetches = 1, llmCalls = []\<rparr>) \<and>
   loadCandidateGames False 600999 (Inr [])
       (snd (loadCandidateGames False 2000 (Inr [])
          \<lparr>cachedGames = Some puzzle_games, cachedAt = 1000, storeFetches = 1,
           llmCalls = []\<rparr>))
     = (Inr puzzle_games,
        \<lparr>cachedGames = Some puzzle_games, cachedAt = 1000, storeFetches = 1, llmCalls = []\<rparr>) \<and>
   storeFetches (snd (loadCandidateGames False 601000 (Inr [])
       \<lparr>cachedGames = Some puzzle_games, cachedAt = 1000, storeFetches = 1, llmCalls = []\<rparr>))
     = 2 \<and>
   storeFetches (snd (loadCandidateGames True 2000 (Inr [])
       \<lparr>cachedGames = Some puzzle_games, cachedAt = 1000, storeFetches = 1, llmCalls = []\<rparr>))
     = 2 \<and>
   storeFetches (snd (idv_loadCandidateGames False 1000 (Inr puzzle_games) empty_world)) = 1 \<and>
   idv_loadCandidateGames False 2000 (Inr [])
       \<lparr>cachedGames = Some [], cachedAt = 1000, storeFetches = 1, llmCalls = []\<rparr>
     = (Inr [], \<lparr>cachedGames = Some [], cachedAt = 1000, storeFetches = 1, llmCalls = []\<rparr>)"
proof -
  let ?w = "\<lparr>cachedGames = Some puzzle_games, cachedAt = 1000, storeFetches = 1,
             llmCalls = []\<rparr> :: game world"
  let ?iw = "\<lparr>cachedGames = Some [], cachedAt = 1000, storeFetches = 1,
              llmCalls = []\<rparr> :: idv_game world"
  have first: "loadCandidateGames False 1000 (Inr puzzle_games) empty_world
     = (Inr puzzle_games, ?w)"
    by (simp add: loadCandidateGames_def empty_world_def)
  from loadCandidateGames_cache
    [of ?w puzzle_games 2000 600999 "Inr []" "Inr []" False ?iw "[]"]
  have within: "loadCandidateGames False 2000 (Inr []) ?w = (Inr puzzle_games, ?w)"
    "loadCandidateGames False 600999 (Inr [])
       (snd (loadCandidateGames False 2000 (Inr []) ?w)) = (Inr puzzle_games, ?w)"
    "idv_loadCandidateGames False 2000 (Inr []) ?iw = (Inr [], ?iw)"
    by auto
  from loadCandidateGames_cache
    [of ?w puzzle_games 601000 0 "Inr []" "Inr []" False ?iw "[]"]
  have expired: "storeFetches (snd (loadCandidateGames False 601000 (Inr []) ?w)) = 2"
    by simp
  from loadCandidateGames_cache
    [of ?w puzzle_games 2000 0 "Inr []" "Inr []" True ?iw "[]"]
  have forced: "storeFetches (snd (loadCandidateGames True 2000 (Inr []) ?w)) = 2"
    by simp
  from loadCandidateGames_cache
    [of empty_world "[]" 1000 0 "Inr puzzle_games" "Inr []" False empty_world "[]"]
  have none: "storeFetches (snd (idv_loadCandidateGames False 1000 (Inr puzzle_games)
      empty_world)) = 1"
    by (simp add: empty_world_def)
  from first within expired forced none show ?thesis
    by simp
qed

text \<open>
  Claim C7. A forced reload whose store read fails returns the error and leaves
  \<open>cachedGames\<close> and \<open>cachedAt\<close> as they were; one whose store read succeeds replaces
  both, by the list just read and by the time of the call. Both files.
\<close>

theorem loadCandidateGames_forced:
  "loadCandidateGames True now (Inl err) w = (Inl err, w\<lparr>storeFetches := storeFetches w + 1\<rparr>) \<and>
   cachedGames (snd (loadCandidateGames True now (Inl err) w)) = cachedGames w \<and>
   cachedAt (snd (loadCandidateGames True now (Inl err) w)) = cachedAt w \<and>
   fst (loadCandidateGames True now (Inr docs) w) = Inr docs \<and>
   cachedGames (snd (loadCandidateGames True now (Inr docs) w)) = Some docs \<and>
   cachedAt (snd (loadCandidateGames True now (Inr docs) w)) = now \<and>
   idv_loadCandidateGames True now (Inl err) iw
     = (Inl err, iw\<lparr>storeFetches := storeFetches iw + 1\<rparr>) \<and>
   cachedGames (snd (idv_loadCandidateGames True now (Inl err) iw)) = cachedGames iw \<and>
   cachedAt (snd (idv_loadCandidateGames True now (Inl err) iw)) = cachedAt iw \<and>
   fst (idv_loadCandidateGames True now (Inr docs) iw) = Inr (map idv_fromDoc docs) \<and>
   cachedGames (snd (idv_loadCandidateGames True now (Inr docs) iw))
     = Some (map idv_fromDoc docs) \<and>
   cachedAt (snd (idv_loadCandidateGames True now (Inr docs) iw)) = now"
  by (simp add: loadCandidateGames_def idv_loadCandidateGames_def Let_def)

section \<open>Request validation\<close>

text \<open>
  Claim C8, as amended. When the \<open>favorites\<close> property of the body is missing, is not a
  list, or is the empty list, the handler changes nothing: no store read, no LLM call, the
  cache as it was. It responds 400 with \<open>{error: "favorites must be a non-empty array"}\<close>
  in index.js, and in functions/index.js when an LLM client is configured; without a
  client, functions/index.js responds 500 before it looks at the body.
\<close>

theorem recommend_rejects_invalid:
  "invalidFavorites (body_favorites req) \<longrightarrow>
     recommend JSON_stringify (Some create) req now store w
       = (Response 400 (ErrorBody ''favorites must be a non-empty array''), w) \<and>
     recommend JSON_stringify None req now store w
       = (Response 500 (ErrorBody ''OpenAI is not configured on the server''), w) \<and>
     idv_recommend idv_stringify idv_create req now store iw
       = (Response 400 (ErrorBody ''favorites must be a non-empty array''), iw)"
  by (auto simp: invalidFavorites_def recommend_def idv_recommend_def
      split: option.splits json.splits list.splits)

theorem recommend_rejects_invalid_witness:
  "invalidFavorites (body_favorites \<lparr>body_favorites = None\<rparr>) \<and>
   invalidFavorites (body_favorites \<lparr>body_favorites = Some (JStr ''Portal 2'')\<rparr>) \<and>
   invalidFavorites (body_favorites \<lparr>body_favorites = Some (JArr [])\<rparr>) \<and>
   recommend no_text (Some example_answer) \<lparr>body_favorites = None\<rparr> 5 (Inr puzzle_games) empty_world
     = (Response 400 (ErrorBody ''favorites must be a non-empty array''), empty_world) \<and>
   recommend no_text (Some example_answer) \<lparr>body_favorites = Some (JStr ''Portal 2'')\<rparr> 5
       (Inr puzzle_games) empty_world
     = (Response 400 (ErrorBody ''favorites must be a non-empty array''), empty_world) \<and>
   idv_recommend no_text idv_example_answer
       \<lparr>body_favorites = Some (JArr [])\<rparr> 5 (Inr puzzle_games) empty_world
     = (Response 400 (ErrorBody ''favorites must be a non-empty array''), empty_world)"
proof -
  have a: "invalidFavorites (body_favorites \<lparr>body_favorites = None\<rparr>)"
    and b: "invalidFavorites (body_favorites \<lparr>body_favorites = Some (JStr ''Portal 2'')\<rparr>)"
    and c: "invalidFavorites (body_favorites \<lparr>body_favorites = Some (JArr [])\<rparr>)"
    by (simp_all add: invalidFavorites_def)
  from a b c
    recommend_rejects_invalid [of "\<lparr>body_favorites = None\<rparr>" no_text example_answer 5
      "Inr puzzle_games" empty_world no_text idv_example_answer
      empty_world]
    recommend_rejects_invalid [of "\<lparr>body_favorites = Some (JStr ''Portal 2'')\<rparr>" no_text
      example_answer 5 "Inr puzzle_games" empty_world no_text
      idv_example_answer empty_world]
    recommend_rejects_invalid [of "\<lparr>body_favorites = Some (JArr [])\<rparr>" no_text
      example_answer 5 "Inr puzzle_games" empty_world no_text
      idv_example_answer empty_world]
  show ?thesis by simp
qed

text \<open>
  The claim as the spec words it fails in functions/index.js: the test \<open>!client\<close> of
  line 128 comes before the validation of line 136.
\<close>

theorem recommend_rejects_invalid_counterexample:
  "invalidFavorites (body_favorites \<lparr>body_favorites = Some (JArr [])\<rparr>) \<and>
   fst (recommend no_text None \<lparr>body_favorites = Some (JArr [])\<rparr> 5 (Inr puzzle_games)
          empty_world)
     = Response 500 (ErrorBody ''OpenAI is not configured on the server'') \<and>
   fst (recommend no_text None \<lparr>body_favorites = Some (JArr [])\<rparr> 5 (Inr puzzle_games)
          empty_world)
     \<noteq> Response 400 (ErrorBody ''favorites must be a non-empty array'')"
  by (simp add: invalidFavorites_def recommend_def)

section \<open>Prompt and schema\<close>

lemma validIndexes_simplified: "validIndexes (simplified pool) = map int [0..<length pool]"
proof -
  have "map s_index (simplified pool) = map (int \<circ> fst) (enumerate 0 pool)"
    by (simp add: simplified_def case_prod_unfold comp_def)
  also have "\<dots> = map int (map fst (enumerate 0 pool))"
    by (simp only: map_map)
  also have "\<dots> = map int [0..<length pool]"
    by (simp add: map_fst_enumerate)
  finally show ?thesis
    by (simp add: validIndexes_def)
qed

lemma floor_in_range:
  fixes q :: rat
  assumes "q = of_int \<lfloor>q\<rfloor>"
  shows "\<lfloor>q\<rfloor> \<in> set (map int [0..<n]) \<longleftrightarrow> 0 \<le> q \<and> q < of_nat n"
proof
  assume "\<lfloor>q\<rfloor> \<in> set (map int [0..<n])"
  then obtain i where i: "i < n" "\<lfloor>q\<rfloor> = int i" by auto
  with assms have "q = of_nat i" by simp
  with i show "0 \<le> q \<and> q < of_nat n" by simp
next
  assume h: "0 \<le> q \<and> q < of_nat n"
  then have lo: "0 \<le> \<lfloor>q\<rfloor>" by simp
  from h have hi: "\<lfloor>q\<rfloor> < int n"
    by (simp add: floor_less_iff)
  from lo hi have "nat \<lfloor>q\<rfloor> < n" "int (nat \<lfloor>q\<rfloor>) = \<lfloor>q\<rfloor>" by linarith+
  then show "\<lfloor>q\<rfloor> \<in> set (map int [0..<n])"
    by (metis atLeast0LessThan image_eqI lessThan_iff list.set_map set_upt)
qed

lemma conforms_index:
  "conforms (SInteger (Some (map int [0..<n]))) x \<longleftrightarrow>
     (case x of JNum q \<Rightarrow> q = of_int \<lfloor>q\<rfloor> \<and> 0 \<le> q \<and> q < of_nat n | _ \<Rightarrow> False)"
  using floor_in_range by (cases x) auto

lemma conforms_string: "conforms SString x \<longleftrightarrow> (case x of JStr _ \<Rightarrow> True | _ \<Rightarrow> False)"
  by simp

lemma conforms_item:
  "conforms
     (SObject [(''index'', SInteger (Some (map int [0..<n]))), (''reason'', SString)]
        [''index'', ''reason''] False) v
   \<longleftrightarrow> declaredItem n v"
proof (cases v)
  case (JObj kvs)
  have "(\<lambda>(k, x). case map_of [(''index'', SInteger (Some (map int [0..<n]))), (''reason'', SString)] k of
                    None \<Rightarrow> False | Some s \<Rightarrow> conforms s x)
      = (\<lambda>(k, x).
              if k = ''index''
              then (case x of JNum q \<Rightarrow> q = of_int \<lfloor>q\<rfloor> \<and> 0 \<le> q \<and> q < of_nat n | _ \<Rightarrow> False)
              else if k = ''reason'' then (case x of JStr _ \<Rightarrow> True | _ \<Rightarrow> False)
              else False)"
    by (intro ext) (simp add: conforms_index conforms_string split: prod.splits del: conforms.simps)
  with JObj show ?thesis
    by (simp add: declaredItem_def)
qed (simp_all add: declaredItem_def)

lemma conforms_recommendations:
  "conforms
     (SArray
        (SObject [(''index'', SInteger (Some (map int [0..<n]))), (''reason'', SString)]
           [''index'', ''reason''] False)
        (Some 8) (Some 8)) x
   \<longleftrightarrow> (case x of JArr vs \<Rightarrow> length vs = 8 \<and> list_all (declaredItem n) vs | _ \<Rightarrow> False)"
proof (cases x)
  case (JArr vs)
  have "list_all (conforms
     (SObject [(''index'', SInteger (Some (map int [0..<n]))), (''reason'', SString)]
        [''index'', ''reason''] False)) vs = list_all (declaredItem n) vs"
    using conforms_item [of n] by (simp add: list_all_iff del: conforms.simps)
  with JArr show ?thesis
    by (auto simp del: conforms.simps(5) simp add: conforms.simps(4))
qed simp_all

lemma conforms_output:
  "conforms (schema (text_format (responses_request text (map int [0..<n])))) v
   \<longleftrightarrow> declaredOutput n v"
proof (cases v)
  case (JObj kvs)
  have "(\<lambda>(k, x). case map_of
            [(''summary'', SString),
              (''recommendations'',
               SArray
                 (SObject
                    [(''index'', SInteger (Some (map int [0..<n]))), (''reason'', SString)]
                    [''index'', ''reason'']
                    False)
                 (Some 8) (Some 8))] k of
                    None \<Rightarrow> False | Some s \<Rightarrow> conforms s x)
      = (\<lambda>(k, x).
              if k = ''summary'' then (case x of JStr _ \<Rightarrow> True | _ \<Rightarrow> False)
              else if k = ''recommendations''
              then (case x of JArr vs \<Rightarrow> length vs = 8 \<and> list_all (declaredItem n) vs | _ \<Rightarrow> False)
              else False)"
    by (intro ext) (simp add: conforms_recommendations conforms_string split: prod.splits del: conforms.simps)
  with JObj show ?thesis
    by (simp add: declaredOutput_def responses_request_def)
qed (simp_all add: declaredOutput_def responses_request_def)

lemma sublist_within: "sublist s m \<Longrightarrow> sublist s (xs @ m @ ys)"
  by (meson sublist_appendI sublist_order.order_trans)

lemma prompt_sentences:
  "sublist ''You MUST ONLY recommend from the following candidate games array.''
     (prompt JSON_stringify favorites simp)"
  "sublist ''DO NOT invent new games or indices that are not in the list.''
     (prompt JSON_stringify favorites simp)"
  "sublist ''1. Select **8 games** the user is most likely to enjoy.''
     (prompt JSON_stringify favorites simp)"
proof -
  have rules:
    "sublist ''You MUST ONLY recommend from the following candidate games array.'' prompt_rules"
    "sublist ''DO NOT invent new games or indices that are not in the list.'' prompt_rules"
    by code_simp+
  have task: "sublist ''1. Select **8 games** the user is most likely to enjoy.'' prompt_task"
    by code_simp
  have shape: "prompt JSON_stringify favorites simp =
      (prompt_head @ join '', '' favorites) @ prompt_rules @ (JSON_stringify simp @ prompt_task)"
    "prompt JSON_stringify favorites simp =
      (prompt_head @ join '', '' favorites @ prompt_rules @ JSON_stringify simp) @ prompt_task @ []"
    by (simp_all add: prompt_def)
  show "sublist ''You MUST ONLY recommend from the following candidate games array.''
     (prompt JSON_stringify favorites simp)"
    unfolding shape(1) using rules(1) by (rule sublist_within)
  show "sublist ''DO NOT invent new games or indices that are not in the list.''
     (prompt JSON_stringify favorites simp)"
    unfolding shape(1) using rules(2) by (rule sublist_within)
  show "sublist ''1. Select **8 games** the user is most likely to enjoy.''
     (prompt JSON_stringify favorites simp)"
    unfolding shape(2) using task by (rule sublist_within)
qed

lemma recommend_llmCalls:
  assumes "favoriteStrings (f # fs) = Inr favorites"
    and "loadCandidateGames False now store w = (Inr candidates, w1)"
  shows "llmCalls (snd (recommend JSON_stringify (Some create)
            \<lparr>body_favorites = Some (JArr (f # fs))\<rparr> now store w)) =
         llmCalls w @
           [responses_request
              (prompt JSON_stringify favorites (simplified (selectPool candidates favorites)))
              (validIndexes (simplified (selectPool candidates favorites)))]"
proof -
  have "llmCalls w1 = llmCalls w"
    using assms(2) by (auto simp: loadCandidateGames_def Let_def split: if_splits sum.splits)
  with assms show ?thesis
    by (simp add: recommend_def Let_def split: sum.splits)
qed

lemma idv_conforms_item:
  "conforms (SObject [(''id'', SNumber), (''reason'', SString)] [''id'', ''reason''] False) v
   \<longleftrightarrow> idv_admittedItem v"
proof (cases v)
  case (JObj kvs)
  have "(\<lambda>(k, x). case map_of [(''id'', SNumber), (''reason'', SString)] k of
                    None \<Rightarrow> False | Some s \<Rightarrow> conforms s x)
      = (\<lambda>(k, x).
              if k = ''id'' then (case x of JNum _ \<Rightarrow> True | _ \<Rightarrow> False)
              else if k = ''reason'' then (case x of JStr _ \<Rightarrow> True | _ \<Rightarrow> False)
              else False)"
    by (intro ext) (simp split: prod.splits)
  with JObj show ?thesis
    by (simp add: idv_admittedItem_def)
qed (simp_all add: idv_admittedItem_def)

lemma idv_conforms_recommendations:
  "conforms
     (SArray (SObject [(''id'', SNumber), (''reason'', SString)] [''id'', ''reason''] False)
        None None) x
   \<longleftrightarrow> (case x of JArr vs \<Rightarrow> list_all idv_admittedItem vs | _ \<Rightarrow> False)"
proof (cases x)
  case (JArr vs)
  have "list_all (conforms
     (SObject [(''id'', SNumber), (''reason'', SString)] [''id'', ''reason''] False)) vs
     = list_all idv_admittedItem vs"
    using idv_conforms_item by (simp add: list_all_iff del: conforms.simps)
  with JArr show ?thesis
    by (auto simp del: conforms.simps(5) simp add: conforms.simps(4))
qed simp_all

lemma idv_conforms_output:
  "conforms (schema (text_format (idv_responses_request t))) v \<longleftrightarrow> idv_admittedOutput v"
proof (cases v)
  case (JObj kvs)
  have "(\<lambda>(k, x). case map_of
            [(''recommendations'',
              SArray
                (SObject [(''id'', SNumber), (''reason'', SString)] [''id'', ''reason''] False)
                None None)] k of
                    None \<Rightarrow> False | Some s \<Rightarrow> conforms s x)
      = (\<lambda>(k, x).
              if k = ''recommendations''
              then (case x of JArr vs \<Rightarrow> list_all idv_admittedItem vs | _ \<Rightarrow> False)
              else False)"
    by (intro ext)
      (simp add: idv_conforms_recommendations split: prod.splits del: conforms.simps)
  with JObj show ?thesis
    by (simp add: idv_admittedOutput_def idv_responses_request_def)
qed (simp_all add: idv_admittedOutput_def idv_responses_request_def)

lemma idv_prompt_sentence:
  "sublist ''From ONLY these candidate games, select 5 games the user is most likely to enjoy.''
     (idv_prompt JSON_stringify favorites simp)"
proof -
  have task:
    "sublist ''From ONLY these candidate games, select 5 games the user is most likely to enjoy.''
       idv_prompt_task"
    by code_simp
  have shape: "idv_prompt JSON_stringify favorites simp =
      (idv_prompt_head @ join '', '' favorites @ idv_prompt_rules @ JSON_stringify simp) @
      idv_prompt_task @ []"
    by (simp add: idv_prompt_def)
  show ?thesis
    unfolding shape using task by (rule sublist_within)
qed

lemma idv_recommend_llmCalls:
  assumes "favoriteStrings (f # fs) = Inr favorites"
    and "idv_loadCandidateGames False now store w = (Inr candidates, w1)"
  shows "llmCalls (snd (idv_recommend JSON_stringify create
            \<lparr>body_favorites = Some (JArr (f # fs))\<rparr> now store w)) =
         llmCalls w @
           [idv_responses_request
              (idv_prompt JSON_stringify favorites
                 (idv_simplified (idv_filterByGenre candidates favorites)))]"
proof -
  have "llmCalls w1 = llmCalls w"
    using assms(2)
    by (auto simp: idv_loadCandidateGames_def Let_def split: if_splits sum.splits)
  with assms show ?thesis
    by (simp add: idv_recommend_def Let_def split: sum.splits)
qed

text \<open>
  Claim C9, as amended. Both files send a \<open>json_schema\<close> format in strict mode with no
  unknown key allowed at any level. In functions/index.js the schema admits exactly the
  declared outputs: an object with a string \<open>summary\<close> and a list \<open>recommendations\<close>
  of exactly 8 objects, each with an integer \<open>index\<close> among the positions
  \<open>0, ..., |pool| - 1\<close> of the pool and a string \<open>reason\<close>; its prompt tells the model
  to recommend only from the listed games, not to invent indices, and to select 8 games.
  In index.js the schema admits exactly the objects with a list \<open>recommendations\<close> of
  any length, each item with a number \<open>id\<close> and a string \<open>reason\<close>: no \<open>summary\<close>, no
  bound on the number of items, no restriction of the id to the pool; its prompt asks
  for 5 games from only the listed candidates.
\<close>

theorem responses_request_contract:
  "(let request =
          responses_request (prompt JSON_stringify favorites (simplified pool))
            (validIndexes (simplified pool))
    in fmt_type (text_format request) = ''json_schema'' \<and>
       strict (text_format request) \<and>
       validIndexes (simplified pool) = map int [0..<length pool] \<and>
       (\<forall>v. conforms (schema (text_format request)) v \<longleftrightarrow> declaredOutput (length pool) v) \<and>
       sublist ''You MUST ONLY recommend from the following candidate games array.''
         (input request) \<and>
       sublist ''DO NOT invent new games or indices that are not in the list.'' (input request) \<and>
       sublist ''1. Select **8 games** the user is most likely to enjoy.'' (input request) \<and>
       (favoriteStrings (f # fs) = Inr favorites \<and>
        loadCandidateGames False now store w = (Inr candidates, w1) \<and>
        pool = selectPool candidates favorites \<longrightarrow>
        llmCalls (snd (recommend JSON_stringify (Some create)
                    \<lparr>body_favorites = Some (JArr (f # fs))\<rparr> now store w))
          = llmCalls w @ [request])) \<and>
   (let idv_request =
          idv_responses_request
            (idv_prompt idv_stringify favorites (idv_simplified filteredCandidates))
    in fmt_type (text_format idv_request) = ''json_schema'' \<and>
       strict (text_format idv_request) \<and>
       (\<forall>v. conforms (schema (text_format idv_request)) v \<longleftrightarrow> idv_admittedOutput v) \<and>
       sublist
         ''From ONLY these candidate games, select 5 games the user is most likely to enjoy.''
         (input idv_request) \<and>
       (favoriteStrings (f # fs) = Inr favorites \<and>
        idv_loadCandidateGames False now store iw = (Inr idv_candidates, iw1) \<and>
        filteredCandidates = idv_filterByGenre idv_candidates favorites \<longrightarrow>
        llmCalls (snd (idv_recommend idv_stringify idv_create
                    \<lparr>body_favorites = Some (JArr (f # fs))\<rparr> now store iw))
          = llmCalls iw @ [idv_request]))"
proof (rule conjI)
  have a: "input (responses_request t ixs) = t" for t ixs
    by (simp add: responses_request_def)
  have b: "fmt_type (text_format (responses_request t ixs)) = ''json_schema''"
    "strict (text_format (responses_request t ixs))" for t ixs
    by (simp_all add: responses_request_def)
  show "(let request =
          responses_request (prompt JSON_stringify favorites (simplified pool))
            (validIndexes (simplified pool))
    in fmt_type (text_format request) = ''json_schema'' \<and>
       strict (text_format request) \<and>
       validIndexes (simplified pool) = map int [0..<length pool] \<and>
       (\<forall>v. conforms (schema (text_format request)) v \<longleftrightarrow> declaredOutput (length pool) v) \<and>
       sublist ''You MUST ONLY recommend from the following candidate games array.''
         (input request) \<and>
       sublist ''DO NOT invent new games or indices that are not in the list.'' (input request) \<and>
       sublist ''1. Select **8 games** the user is most likely to enjoy.'' (input request) \<and>
       (favoriteStrings (f # fs) = Inr favorites \<and>
        loadCandidateGames False now store w = (Inr candidates, w1) \<and>
        pool = selectPool candidates favorites \<longrightarrow>
        llmCalls (snd (recommend JSON_stringify (Some create)
                    \<lparr>body_favorites = Some (JArr (f # fs))\<rparr> now store w))
          = llmCalls w @ [request]))"
    unfolding Let_def a
    using prompt_sentences [of JSON_stringify favorites "simplified pool"]
      recommend_llmCalls [of f fs favorites now store w candidates w1 JSON_stringify create]
    by (simp add: b validIndexes_simplified conforms_output del: conforms.simps)
next
  have a: "input (idv_responses_request t) = t" for t
    by (simp add: idv_responses_request_def)
  have b: "fmt_type (text_format (idv_responses_request t)) = ''json_schema''"
    "strict (text_format (idv_responses_request t))" for t
    by (simp_all add: idv_responses_request_def)
  show "(let idv_request =
          idv_responses_request
            (idv_prompt idv_stringify favorites (idv_simplified filteredCandidates))
    in fmt_type (text_format idv_request) = ''json_schema'' \<and>
       strict (text_format idv_request) \<and>
       (\<forall>v. conforms (schema (text_format idv_request)) v \<longleftrightarrow> idv_admittedOutput v) \<and>
       sublist
         ''From ONLY these candidate games, select 5 games the user is most likely to enjoy.''
         (input idv_request) \<and>
       (favoriteStrings (f # fs) = Inr favorites \<and>
        idv_loadCandidateGames False now store iw = (Inr idv_candidates, iw1) \<and>
        filteredCandidates = idv_filterByGenre idv_candidates favorites \<longrightarrow>
        llmCalls (snd (idv_recommend idv_stringify idv_create
                    \<lparr>body_favorites = Some (JArr (f # fs))\<rparr> now store iw))
          = llmCalls iw @ [idv_request]))"
    unfolding Let_def a
    using idv_prompt_sentence [of idv_stringify favorites "idv_simplified filteredCandidates"]
      idv_recommend_llmCalls [of f fs favorites now store iw idv_candidates iw1 idv_stringify
        idv_create]
    by (simp add: b idv_conforms_output del: conforms.simps)
qed

theorem responses_request_contract_witness:
  "(let request =
          responses_request (prompt no_text [''Unknown Game XYZ''] (simplified puzzle_games))
            (validIndexes (simplified puzzle_games))
    in validIndexes (simplified puzzle_games) = [0, 1, 2, 3, 4, 5, 6, 7, 8] \<and>
       conforms (schema (text_format request)) (example_output [1, 2, 3, 4, 5, 6, 7, 8]) \<and>
       \<not> conforms (schema (text_format request)) (example_output [1, 2, 3, 4, 5, 6, 7]) \<and>
       \<not> conforms (schema (text_format request)) (example_output [1, 2, 3, 4, 5, 6, 7, 9]) \<and>
       \<not> conforms (schema (text_format request))
            (JObj [(''summary'', JStr ''puzzles''),
                   (''recommendations'', example_items [1, 2, 3, 4, 5, 6, 7, 8]),
                   (''note'', JNull)]) \<and>
       sublist ''1. Select **8 games** the user is most likely to enjoy.'' (input request) \<and>
       llmCalls (snd (recommend no_text (Some example_answer)
                   \<lparr>body_favorites = Some (JArr [JStr ''Unknown Game XYZ''])\<rparr> 5 (Inr puzzle_games)
                   empty_world))
         = [request]) \<and>
   (let idv_request =
          idv_responses_request
            (idv_prompt no_text [''Unknown Game XYZ''] (idv_simplified idv_example_candidates))
    in conforms (schema (text_format idv_request))
         (JObj [(''recommendations'',
                 JArr [JObj [(''id'', JNum 10), (''reason'', JStr ''a shooter'')]])]) \<and>
       \<not> conforms (schema (text_format idv_request))
            (example_output [1, 2, 3, 4, 5, 6, 7, 8]) \<and>
       sublist
         ''From ONLY these candidate games, select 5 games the user is most likely to enjoy.''
         (input idv_request) \<and>
       llmCalls (snd (idv_recommend no_text idv_example_answer
                   \<lparr>body_favorites = Some (JArr [JStr ''Unknown Game XYZ''])\<rparr> 5
                   (Inr example_docs) empty_world))
         = [idv_request])"
proof -
  have len: "length puzzle_games = 9"
    by (simp add: puzzle_games_def)
  have favs: "favoriteStrings [JStr ''Unknown Game XYZ''] = Inr [''Unknown Game XYZ'']"
    by simp
  have load: "loadCandidateGames False 5 (Inr puzzle_games) empty_world
     = (Inr puzzle_games,
        \<lparr>cachedGames = Some puzzle_games, cachedAt = 5, storeFetches = 1, llmCalls = []\<rparr>)"
    by (simp add: loadCandidateGames_def empty_world_def)
  have sel: "puzzle_games = selectPool puzzle_games [''Unknown Game XYZ'']"
    by code_simp
  have upt: "map int [0..<9] = [0, 1, 2, 3, 4, 5, 6, 7, 8]"
    by code_simp
  have good: "declaredOutput 9 (example_output [1, 2, 3, 4, 5, 6, 7, 8])"
    by code_simp
  have short: "\<not> declaredOutput 9 (example_output [1, 2, 3, 4, 5, 6, 7])"
    by code_simp
  have stray: "\<not> declaredOutput 9 (example_output [1, 2, 3, 4, 5, 6, 7, 9])"
    by code_simp
  have extra: "\<not> declaredOutput 9
            (JObj [(''summary'', JStr ''puzzles''),
                   (''recommendations'', example_items [1, 2, 3, 4, 5, 6, 7, 8]),
                   (''note'', JNull)])"
    by code_simp
  have empty: "llmCalls (empty_world :: game world) = []"
    by (simp add: empty_world_def)
  let ?request = "responses_request (prompt no_text [''Unknown Game XYZ''] (simplified puzzle_games))
            (validIndexes (simplified puzzle_games))"
  note contract = responses_request_contract [of no_text "[''Unknown Game XYZ'']" puzzle_games
      "JStr ''Unknown Game XYZ''" "[]" 5 "Inr puzzle_games" empty_world puzzle_games
      "\<lparr>cachedGames = Some puzzle_games, cachedAt = 5, storeFetches = 1, llmCalls = []\<rparr>"
      example_answer, unfolded Let_def len]
  from contract have indexes: "validIndexes (simplified puzzle_games) = [0, 1, 2, 3, 4, 5, 6, 7, 8]"
    unfolding upt by blast
  from contract have admitted: "conforms (schema (text_format ?request)) v = declaredOutput 9 v"
    for v
    by blast
  from contract
  have sentence: "sublist ''1. Select **8 games** the user is most likely to enjoy.''
      (input ?request)"
    by blast
  from contract favs load sel
  have calls: "llmCalls (snd (recommend no_text (Some example_answer)
                   \<lparr>body_favorites = Some (JArr [JStr ''Unknown Game XYZ''])\<rparr> 5
                   (Inr puzzle_games) empty_world))
         = [?request]"
    unfolding empty by simp
  let ?idv_request = "idv_responses_request
      (idv_prompt no_text [''Unknown Game XYZ''] (idv_simplified idv_example_candidates))"
  have idv_load: "idv_loadCandidateGames False 5 (Inr example_docs) empty_world
      = (Inr idv_example_candidates,
         \<lparr>cachedGames = Some idv_example_candidates, cachedAt = 5, storeFetches = 1,
          llmCalls = []\<rparr>)"
    by (simp add: idv_loadCandidateGames_def empty_world_def idv_example_candidates_def)
  have idv_pool: "idv_example_candidates
      = idv_filterByGenre idv_example_candidates [''Unknown Game XYZ'']"
    by code_simp
  have idv_good: "idv_admittedOutput
      (JObj [(''recommendations'',
              JArr [JObj [(''id'', JNum 10), (''reason'', JStr ''a shooter'')]])])"
    by code_simp
  have idv_bad: "\<not> idv_admittedOutput (example_output [1, 2, 3, 4, 5, 6, 7, 8])"
    by code_simp
  have idv_empty: "llmCalls (empty_world :: idv_game world) = []"
    by (simp add: empty_world_def)
  note idv_contract = responses_request_contract [of _ "[''Unknown Game XYZ'']" _
      "JStr ''Unknown Game XYZ''" "[]" 5 "Inr example_docs" _ _ _ _ no_text
      idv_example_candidates empty_world idv_example_candidates
      "\<lparr>cachedGames = Some idv_example_candidates, cachedAt = 5, storeFetches = 1,
        llmCalls = []\<rparr>"
      idv_example_answer, unfolded Let_def, THEN conjunct2]
  from idv_contract
  have idv_admitted: "conforms (schema (text_format ?idv_request)) v = idv_admittedOutput v"
    for v
    by blast
  from idv_contract
  have idv_sentence: "sublist
      ''From ONLY these candidate games, select 5 games the user is most likely to enjoy.''
      (input ?idv_request)"
    by blast
  from idv_contract favs idv_load idv_pool
  have idv_calls: "llmCalls (snd (idv_recommend no_text idv_example_answer
                   \<lparr>body_favorites = Some (JArr [JStr ''Unknown Game XYZ''])\<rparr> 5
                   (Inr example_docs) empty_world))
         = [?idv_request]"
    unfolding idv_empty by simp
  from indexes sentence calls good short stray extra idv_good idv_bad idv_sentence idv_calls
  show ?thesis
    unfolding Let_def admitted idv_admitted by blast
qed

text \<open>
  The claim as the spec words it fails on index.js: the schema sent there admits an
  answer with no summary and no item, and an item whose id no candidate has, and the
  prompt asks for 5 games, not 8.
\<close>

theorem responses_request_contract_counterexample:
  "conforms
     (schema (text_format (idv_responses_request
        (idv_prompt no_text [''portal 2'']
           (idv_simplified (idv_filterByGenre idv_example_candidates [''portal 2'']))))))
     (JObj [(''recommendations'', JArr [])]) \<and>
   \<not> declaredOutput (length (idv_filterByGenre idv_example_candidates [''portal 2'']))
       (JObj [(''recommendations'', JArr [])]) \<and>
   conforms
     (schema (text_format (idv_responses_request
        (idv_prompt no_text [''portal 2'']
           (idv_simplified (idv_filterByGenre idv_example_candidates [''portal 2'']))))))
     (JObj [(''recommendations'',
             JArr [JObj [(''id'', JNum 77), (''reason'', JStr ''not in the store'')]])]) \<and>
   sublist ''select 5 games''
     (input (idv_responses_request
        (idv_prompt no_text [''portal 2'']
           (idv_simplified (idv_filterByGenre idv_example_candidates [''portal 2'']))))) \<and>
   \<not> sublist ''8 games''
       (input (idv_responses_request
          (idv_prompt no_text [''portal 2'']
             (idv_simplified (idv_filterByGenre idv_example_candidates [''portal 2''])))))"
  by code_simp

section \<open>Reconciliation by id\<close>

lemma idv_recommend_answers:
  assumes "favoriteStrings (f # fs) = Inr favorites"
    and "idv_loadCandidateGames False now store w = (Inr candidates, w1)"
    and "create (idv_responses_request (idv_prompt JSON_stringify favorites
            (idv_simplified (idv_filterByGenre candidates favorites)))) = Inr llmResult"
  shows "idv_recommend JSON_stringify create \<lparr>body_favorites = Some (JArr (f # fs))\<rparr>
            now store w =
         (Response 200 (ListBody (idv_finalResult candidates (idv_recommendations llmResult))),
          w1\<lparr>llmCalls := llmCalls w1 @
             [idv_responses_request (idv_prompt JSON_stringify favorites
                (idv_simplified (idv_filterByGenre candidates favorites)))]\<rparr>)"
  using assms by (simp add: idv_recommend_def Let_def)

lemma idv_finalResult_nth:
  "k < length recs \<Longrightarrow>
   idv_finalResult candidates recs ! k =
     (case find (\<lambda>g. idv_id g = Value (item_id (recs ! k))) candidates of
        None \<Rightarrow>
          \<lparr>idv_id = Value (item_id (recs ! k)), idv_name = Null, idv_genres = Undefined,
           idv_rating = Undefined, idv_slug = Undefined,
           idv_reason = idv_item_reason (recs ! k)\<rparr>
      | Some game \<Rightarrow>
          \<lparr>idv_id = idv_id game, idv_name = idv_name game, idv_genres = idv_genres game,
           idv_rating = idv_rating game, idv_slug = idv_slug game,
           idv_reason = idv_item_reason (recs ! k)\<rparr>)"
  by (simp add: idv_finalResult_def)

text \<open>
  Claim C10. In index.js the model is shown the genre-filtered pool, and each returned id
  is looked up in the full candidate list: the first candidate with that id gives its
  whole record plus the reason, whether or not the genre filter kept it; the record
  \<open>{id, name: null, reason}\<close> appears only for an id that no candidate has.
\<close>

theorem idv_finalResult_full_list:
  "(favoriteStrings (f # fs) = Inr favorites \<and>
    idv_loadCandidateGames False now store w = (Inr candidates, w1) \<and>
    create (idv_responses_request (idv_prompt JSON_stringify favorites
              (idv_simplified (idv_filterByGenre candidates favorites))))
      = Inr \<lparr>idv_recommendations = recs\<rparr> \<longrightarrow>
    idv_recommend JSON_stringify create \<lparr>body_favorites = Some (JArr (f # fs))\<rparr> now store w
      = (Response 200 (ListBody (idv_finalResult candidates recs)),
         w1\<lparr>llmCalls := llmCalls w1 @
            [idv_responses_request (idv_prompt JSON_stringify favorites
               (idv_simplified (idv_filterByGenre candidates favorites)))]\<rparr>)) \<and>
   length (idv_finalResult candidates recs) = length recs \<and>
   (\<forall>k < length recs.
      (\<forall>i < length candidates.
         idv_id (candidates ! i) = Value (item_id (recs ! k)) \<and>
         (\<forall>j < i. idv_id (candidates ! j) \<noteq> Value (item_id (recs ! k))) \<longrightarrow>
         idv_game.truncate (idv_finalResult candidates recs ! k) = candidates ! i \<and>
         idv_reason (idv_finalResult candidates recs ! k) = idv_item_reason (recs ! k)) \<and>
      ((\<forall>g \<in> set candidates. idv_id g \<noteq> Value (item_id (recs ! k))) \<longrightarrow>
         idv_finalResult candidates recs ! k =
           \<lparr>idv_id = Value (item_id (recs ! k)), idv_name = Null, idv_genres = Undefined,
            idv_rating = Undefined, idv_slug = Undefined,
            idv_reason = idv_item_reason (recs ! k)\<rparr>))"
proof (intro conjI allI impI)
  assume h: "favoriteStrings (f # fs) = Inr favorites \<and>
    idv_loadCandidateGames False now store w = (Inr candidates, w1) \<and>
    create (idv_responses_request (idv_prompt JSON_stringify favorites
              (idv_simplified (idv_filterByGenre candidates favorites))))
      = Inr \<lparr>idv_recommendations = recs\<rparr>"
  then show "idv_recommend JSON_stringify create \<lparr>body_favorites = Some (JArr (f # fs))\<rparr>
        now store w
      = (Response 200 (ListBody (idv_finalResult candidates recs)),
         w1\<lparr>llmCalls := llmCalls w1 @
            [idv_responses_request (idv_prompt JSON_stringify favorites
               (idv_simplified (idv_filterByGenre candidates favorites)))]\<rparr>)"
    using idv_recommend_answers [of f fs favorites now store w candidates w1 create
        JSON_stringify "\<lparr>idv_recommendations = recs\<rparr>"]
    by simp
next
  show "length (idv_finalResult candidates recs) = length recs"
    by (simp add: idv_finalResult_def)
next
  fix k i
  assume k: "k < length recs" and i: "i < length candidates"
    and first: "idv_id (candidates ! i) = Value (item_id (recs ! k)) \<and>
         (\<forall>j < i. idv_id (candidates ! j) \<noteq> Value (item_id (recs ! k)))"
  have "find (\<lambda>g. idv_id g = Value (item_id (recs ! k))) candidates = Some (candidates ! i)"
    unfolding find_Some_iff using i first by blast
  with k show "idv_game.truncate (idv_finalResult candidates recs ! k) = candidates ! i"
    and "idv_reason (idv_finalResult candidates recs ! k) = idv_item_reason (recs ! k)"
    by (simp_all add: idv_finalResult_nth idv_game.truncate_def)
next
  fix k
  assume k: "k < length recs"
    and none: "\<forall>g \<in> set candidates. idv_id g \<noteq> Value (item_id (recs ! k))"
  have "find (\<lambda>g. idv_id g = Value (item_id (recs ! k))) candidates = None"
    unfolding find_None_iff using none by blast
  with k show "idv_finalResult candidates recs ! k =
           \<lparr>idv_id = Value (item_id (recs ! k)), idv_name = Null, idv_genres = Undefined,
            idv_rating = Undefined, idv_slug = Undefined,
            idv_reason = idv_item_reason (recs ! k)\<rparr>"
    by (simp add: idv_finalResult_nth)
qed

theorem idv_finalResult_full_list_witness:
  "idv_filterByGenre idv_example_candidates [''portal 2''] = take 2 idv_example_candidates \<and>
   idv_example_candidates ! 2 \<notin> set (idv_filterByGenre idv_example_candidates [''portal 2'']) \<and>
   fst (idv_recommend no_text idv_example_answer
          \<lparr>body_favorites = Some (JArr [JStr ''portal 2''])\<rparr> 5 (Inr example_docs) empty_world)
     = Response 200 (ListBody (idv_finalResult idv_example_candidates idv_example_recs)) \<and>
   length (idv_finalResult idv_example_candidates idv_example_recs) = 2 \<and>
   idv_game.truncate (idv_finalResult idv_example_candidates idv_example_recs ! 0)
     = idv_fromDoc (example_game 10 ''Doom'' ''Action'') \<and>
   idv_reason (idv_finalResult idv_example_candidates idv_example_recs ! 0) = ''a shooter'' \<and>
   idv_finalResult idv_example_candidates idv_example_recs ! 1 =
     \<lparr>idv_id = Value 77, idv_name = Null, idv_genres = Undefined, idv_rating = Undefined,
      idv_slug = Undefined, idv_reason = ''not in the store''\<rparr>"
proof -
  let ?w1 = "\<lparr>cachedGames = Some idv_example_candidates, cachedAt = 5, storeFetches = 1,
              llmCalls = []\<rparr> :: idv_game world"
  have pool: "idv_filterByGenre idv_example_candidates [''portal 2'']
      = take 2 idv_example_candidates"
    by code_simp
  have excluded: "idv_example_candidates ! 2
      \<notin> set (idv_filterByGenre idv_example_candidates [''portal 2''])"
    by code_simp
  have favs: "favoriteStrings [JStr ''portal 2''] = Inr [''portal 2'']"
    by simp
  have load: "idv_loadCandidateGames False 5 (Inr example_docs) empty_world
      = (Inr idv_example_candidates, ?w1)"
    by (simp add: idv_loadCandidateGames_def empty_world_def idv_example_candidates_def)
  have answer: "idv_example_answer request = Inr \<lparr>idv_recommendations = idv_example_recs\<rparr>"
    for request
    by (simp add: idv_example_answer_def)
  have len: "length idv_example_recs = 2" "length idv_example_candidates = 4"
    by (simp_all add: idv_example_recs_def idv_example_candidates_def example_docs_def)
  have doom: "idv_example_candidates ! 2 = idv_fromDoc (example_game 10 ''Doom'' ''Action'')"
    by (simp add: idv_example_candidates_def example_docs_def)
  have first: "idv_id (idv_example_candidates ! 2) = Value (item_id (idv_example_recs ! 0)) \<and>
      (\<forall>j < 2. idv_id (idv_example_candidates ! j) \<noteq> Value (item_id (idv_example_recs ! 0)))"
    by (simp add: idv_example_candidates_def example_docs_def idv_example_recs_def
        idv_fromDoc_def example_game_def less_Suc_eq numeral_2_eq_2)
  have none: "\<forall>g \<in> set idv_example_candidates. idv_id g \<noteq> Value (item_id (idv_example_recs ! 1))"
    by (simp add: idv_example_candidates_def example_docs_def idv_example_recs_def
        idv_fromDoc_def example_game_def)
  have items: "idv_item_reason (idv_example_recs ! 0) = ''a shooter''"
    "item_id (idv_example_recs ! 1) = 77"
    "idv_item_reason (idv_example_recs ! 1) = ''not in the store''"
    "item_id (idv_example_recs ! Suc 0) = 77"
    "idv_item_reason (idv_example_recs ! Suc 0) = ''not in the store''"
    by (simp_all add: idv_example_recs_def)
  note full = idv_finalResult_full_list [of "JStr ''portal 2''" "[]" "[''portal 2'']" 5
      "Inr example_docs" empty_world idv_example_candidates ?w1 idv_example_answer no_text
      idv_example_recs]
  from full favs load answer
  have a: "fst (idv_recommend no_text idv_example_answer
          \<lparr>body_favorites = Some (JArr [JStr ''portal 2''])\<rparr> 5 (Inr example_docs) empty_world)
     = Response 200 (ListBody (idv_finalResult idv_example_candidates idv_example_recs))"
    by simp
  from full have b: "length (idv_finalResult idv_example_candidates idv_example_recs) = 2"
    by (simp add: len)
  from full [THEN conjunct2, THEN conjunct2, rule_format, of 0, THEN conjunct1, rule_format, of 2]
    first
  have c: "idv_game.truncate (idv_finalResult idv_example_candidates idv_example_recs ! 0)
     = idv_fromDoc (example_game 10 ''Doom'' ''Action'') \<and>
     idv_reason (idv_finalResult idv_example_candidates idv_example_recs ! 0) = ''a shooter''"
    by (simp add: len doom items)
  from full [THEN conjunct2, THEN conjunct2, rule_format, of 1, THEN conjunct2, rule_format]
    none
  have d: "idv_finalResult idv_example_candidates idv_example_recs ! 1 =
     \<lparr>idv_id = Value 77, idv_name = Null, idv_genres = Undefined, idv_rating = Undefined,
      idv_slug = Undefined, idv_reason = ''not in the store''\<rparr>"
    by (simp add: len items)
  from pool excluded a b c d show ?thesis
    by blast
qed

end
